theory Spec2Isabelle
  imports Complex_Main
begin

section \<open>Numbers\<close>

text \<open>
  Python floats are modelled as exact reals: rounding, overflow and NaN or infinite
  \<^emph>\<open>inputs\<close> are outside the model. Where the code itself produces a NaN or
  an infinity from finite inputs, the model says so: in \<open>sharpe.py\<close> the only such place is
  \<open>np.std(..., ddof=1)\<close> on fewer than two observations, modelled as the left injection
  \<open>Inl DegreesOfFreedom\<close> (numpy warns "Degrees of freedom <= 0 for slice" and returns NaN);
  in \<open>technicals.py\<close> NaN is an ordinary value of the pandas series and is part of the
  type \<open>fl\<close> below.
\<close>

datatype np_warning = DegreesOfFreedom

section \<open>src/core/sharpe.py\<close>

definition DEFAULT_RF :: real where
  "DEFAULT_RF = 0.005"

subsection \<open>numpy helpers\<close>

text \<open>\<open>xs[-n:]\<close> for a positive \<open>n\<close>: the last \<open>n\<close> elements, the whole list when it is shorter.\<close>

definition last_n :: "nat \<Rightarrow> 'a list \<Rightarrow> 'a list" where
  "last_n n xs = drop (length xs - n) xs"

text \<open>\<open>np.diff\<close>: successive differences, one element shorter than the input.\<close>

fun np_diff :: "real list \<Rightarrow> real list" where
  "np_diff (a # b # xs) = (b - a) # np_diff (b # xs)"
| "np_diff _ = []"

definition np_mean :: "real list \<Rightarrow> real" where
  "np_mean xs = sum_list xs / real (length xs)"

text \<open>\<open>np.std(xs, ddof=1)\<close>: the squared deviations from the mean are summed and divided by
  \<open>max(n - 1, 0)\<close>; with fewer than two observations that is a division by zero, numpy warns
  and the result is NaN.\<close>

definition np_std_ddof1 :: "real list \<Rightarrow> np_warning + real" where
  "np_std_ddof1 xs =
     (if length xs < 2 then Inl DegreesOfFreedom
      else Inr (sqrt (sum_list (map (\<lambda>x. (x - np_mean xs)\<^sup>2) xs) / (real (length xs) - 1))))"

subsection \<open>Volatility and expected return\<close>

text \<open>\<open>window\<close> is a number of bars (the callers pass 30 and 90), so \<open>-(window + 1)\<close> is
  always a negative index.\<close>

definition calculate_hv :: "real list \<Rightarrow> nat \<Rightarrow> np_warning + real option" where
  "calculate_hv close_prices window =
     (if length close_prices < window + 1 then Inr None
      else
        let prices = last_n (window + 1) close_prices in
        if list_ex (\<lambda>p. p \<le> 0) prices then Inr None
        else
          let log_returns = np_diff (map ln prices) in
          case np_std_ddof1 log_returns of
            Inl w \<Rightarrow> Inl w
          | Inr std \<Rightarrow> Inr (Some (std * sqrt 252)))"

definition calculate_upside_downside_vol ::
  "real list \<Rightarrow> nat \<Rightarrow> np_warning + (real option \<times> real option)" where
  "calculate_upside_downside_vol close_prices window =
     (if length close_prices < window + 1 then Inr (None, None)
      else
        let prices = last_n (window + 1) close_prices in
        if list_ex (\<lambda>p. p \<le> 0) prices then Inr (None, None)
        else
          let log_returns = np_diff (map ln prices);
              up_returns = filter (\<lambda>r. r > 0) log_returns;
              down_returns = filter (\<lambda>r. r < 0) log_returns
          in
          case (if length up_returns < 2 then Inr None
                else case np_std_ddof1 up_returns of
                       Inl w \<Rightarrow> Inl w
                     | Inr s \<Rightarrow> Inr (Some (s * sqrt 252))) of
            Inl w \<Rightarrow> Inl w
          | Inr upside_vol \<Rightarrow>
              (case (if length down_returns < 2 then Inr None
                     else case np_std_ddof1 down_returns of
                            Inl w \<Rightarrow> Inl w
                          | Inr s \<Rightarrow> Inr (Some (s * sqrt 252))) of
                 Inl w \<Rightarrow> Inl w
               | Inr downside_vol \<Rightarrow> Inr (upside_vol, downside_vol)))"

definition calculate_expected_return ::
  "real option \<Rightarrow> real option \<Rightarrow> real option \<Rightarrow> real" where
  "calculate_expected_return eps_growth dividend_yield fcf_yield =
     (let eg = (case eps_growth of Some v \<Rightarrow> v | None \<Rightarrow> 0);
          dy = (case dividend_yield of Some v \<Rightarrow> v | None \<Rightarrow> 0);
          fy = (case fcf_yield of Some v \<Rightarrow> v | None \<Rightarrow> 0)
      in eg + dy + fy)"

subsection \<open>Adjusted Sharpe ratio\<close>

definition calculate_adjusted_sr ::
  "real \<Rightarrow> real \<Rightarrow> real option \<Rightarrow> real option \<Rightarrow> real option \<Rightarrow> real option \<Rightarrow> real option" where
  "calculate_adjusted_sr expected_return rf hv30 hv90 upside_vol downside_vol =
     (case hv30 of
        None \<Rightarrow> None
      | Some h30 \<Rightarrow>
          if h30 \<le> 0 then None
          else
            let sr = (expected_return - rf) / (h30 * 0.8);
                vol_trend = (case hv90 of
                               Some h90 \<Rightarrow> if h30 > 0 then h90 / h30 else 1
                             | None \<Rightarrow> 1);
                asymmetry = (case upside_vol of
                               Some u \<Rightarrow>
                                 (case downside_vol of
                                    Some d \<Rightarrow> if d > 0 then min (u / d) 2 else 1
                                  | None \<Rightarrow> 1)
                             | None \<Rightarrow> 1)
            in Some (sr * vol_trend * asymmetry))"

subsection \<open>The four conditions\<close>

definition check_low_volatility :: "real option \<Rightarrow> real \<Rightarrow> bool" where
  "check_low_volatility hv30 threshold =
     (case hv30 of None \<Rightarrow> False | Some h \<Rightarrow> h < threshold)"

definition check_undervalued :: "real option \<Rightarrow> real option \<Rightarrow> real \<Rightarrow> real \<Rightarrow> bool" where
  "check_undervalued per pbr per_max pbr_max =
     (case per of
        None \<Rightarrow> False
      | Some pe \<Rightarrow>
          (case pbr of
             None \<Rightarrow> False
           | Some pb \<Rightarrow> (0 < pe \<and> pe < per_max) \<and> (0 < pb \<and> pb < pbr_max)))"

definition check_financial_stability ::
  "real option \<Rightarrow> real option \<Rightarrow> real option \<Rightarrow> real option \<Rightarrow> real option \<Rightarrow> real option \<Rightarrow> bool" where
  "check_financial_stability equity_ratio operating_cf net_income fcf total_debt ebitda =
     (if equity_ratio = None \<or> the equity_ratio \<le> 0.40 then False
      else if operating_cf = None \<or> net_income = None \<or> the operating_cf \<le> the net_income then False
      else if fcf = None \<or> the fcf \<le> 0 then False
      else if (ebitda \<noteq> None \<and> the ebitda > 0)
              \<and> (let debt = (case total_debt of Some d \<Rightarrow> d | None \<Rightarrow> 0)
                 in debt / the ebitda \<ge> 3.0) then False
      else if ebitda \<noteq> None \<and> the ebitda \<le> 0 then False
      else True)"

definition check_eps_growth :: "real option \<Rightarrow> real option \<Rightarrow> real option \<Rightarrow> bool" where
  "check_eps_growth eps_growth revenue_growth roe =
     (if eps_growth = None \<or> the eps_growth \<le> 0.05 then False
      else if revenue_growth = None \<or> the revenue_growth \<le> 0.0 then False
      else if roe = None \<or> the roe \<le> 0.08 then False
      else True)"

definition calculate_condition_multiplier :: "int \<Rightarrow> real option" where
  "calculate_condition_multiplier passed_count =
     (if passed_count \<ge> 4 then Some 1.0
      else if passed_count = 3 then Some 0.8
      else None)"

subsection \<open>Dictionaries\<close>

text \<open>
  \<open>stock_detail\<close> is a Python dict. The model keeps its one list-valued entry,
  \<open>"price_history"\<close>, apart from the scalar entries (\<open>None\<close> for \<open>price_history\<close>: the key is
  missing). A scalar entry is a float or Python's \<open>None\<close>: \<open>entries d k = None\<close> says that the
  key \<open>k\<close> is missing, \<open>Some None\<close> that it is present with the value \<open>None\<close>.
\<close>

record detail_dict =
  price_history :: "real list option"
  entries :: "string \<rightharpoonup> real option"

text \<open>\<open>d.get(k)\<close>: \<open>None\<close> for a missing key.\<close>

definition dget :: "detail_dict \<Rightarrow> string \<Rightarrow> real option" where
  "dget d k = (case entries d k of Some v \<Rightarrow> v | None \<Rightarrow> None)"

text \<open>\<open>a or b\<close> on optional floats: \<open>a\<close> when it is truthy (present and non-zero), otherwise
  \<open>b\<close>, whatever \<open>b\<close> is.\<close>

definition py_or :: "real option \<Rightarrow> real option \<Rightarrow> real option" where
  "py_or a b = (case a of Some x \<Rightarrow> if x \<noteq> 0 then a else b | None \<Rightarrow> b)"

text \<open>\<open>d.get("price_history", [])\<close>.\<close>

definition get_price_history :: "detail_dict \<Rightarrow> real list" where
  "get_price_history d = (case price_history d of Some ps \<Rightarrow> ps | None \<Rightarrow> [])"

text \<open>\<open>thresholds.get(k, default)\<close>.\<close>

definition tget :: "(string \<rightharpoonup> real) \<Rightarrow> string \<Rightarrow> real \<Rightarrow> real" where
  "tget thresholds k dflt = (case thresholds k of Some v \<Rightarrow> v | None \<Rightarrow> dflt)"

text \<open>\<open>{**d, "hv30": v}\<close>: a new dict, the entries of \<open>d\<close> with \<open>"hv30"\<close> set.\<close>

definition with_hv30 :: "detail_dict \<Rightarrow> real option \<Rightarrow> detail_dict" where
  "with_hv30 d v = d\<lparr>entries := (entries d)(''hv30'' \<mapsto> v)\<rparr>"

subsection \<open>Counting the conditions\<close>

record condition_details =
  low_volatility :: bool
  undervalued :: bool
  financial_stability :: bool
  eps_growth :: bool
  catalyst :: "bool option"

definition count_conditions_passed ::
  "detail_dict \<Rightarrow> (string \<rightharpoonup> real) \<Rightarrow> int \<times> condition_details" where
  "count_conditions_passed stock_detail thresholds =
     (let hv_threshold = tget thresholds ''hv_threshold'' 0.25;
          per_max = tget thresholds ''per_max'' 15.0;
          pbr_max = tget thresholds ''pbr_max'' 1.5;
          hv30 = dget stock_detail ''hv30'';
          per = py_or (dget stock_detail ''trailingPE'') (dget stock_detail ''per'');
          pbr = py_or (dget stock_detail ''priceToBook'') (dget stock_detail ''pbr'');
          equity_ratio = dget stock_detail ''equity_ratio'';
          operating_cf = py_or (dget stock_detail ''operating_cashflow'')
                               (dget stock_detail ''operatingCashflow'');
          net_income = py_or (py_or (dget stock_detail ''net_income_stmt'')
                                    (dget stock_detail ''netIncome''))
                             (dget stock_detail ''net_income'');
          fcf = py_or (py_or (dget stock_detail ''fcf'') (dget stock_detail ''free_cashflow''))
                      (dget stock_detail ''freeCashflow'');
          total_debt = py_or (dget stock_detail ''total_debt'') (dget stock_detail ''totalDebt'');
          ebitda = dget stock_detail ''ebitda'';
          eps_gr = py_or (dget stock_detail ''earningsGrowth'') (dget stock_detail ''eps_growth'');
          revenue_growth = py_or (dget stock_detail ''revenueGrowth'')
                                 (dget stock_detail ''revenue_growth'');
          roe = py_or (dget stock_detail ''returnOnEquity'') (dget stock_detail ''roe'');
          c1 = check_low_volatility hv30 hv_threshold;
          c2 = check_undervalued per pbr per_max pbr_max;
          c3 = check_financial_stability equity_ratio operating_cf net_income fcf total_debt ebitda;
          c4 = check_eps_growth eps_gr revenue_growth roe;
          details = \<lparr>low_volatility = c1, undervalued = c2, financial_stability = c3,
                     eps_growth = c4, catalyst = None\<rparr>;
          passed = int (length (filter (\<lambda>v. v) [c1, c2, c3, c4]))
      in (passed, details))"

subsection \<open>The orchestrator\<close>

text \<open>
  Dicts are mutable objects passed by reference. The store maps the address of every dict
  to its contents; addresses below \<open>used\<close> are allocated. \<open>compute_full_sharpe_score\<close> gets
  the address of \<open>stock_detail\<close> and returns the store it leaves behind.
\<close>

record store =
  cells :: "nat \<Rightarrow> detail_dict"
  used :: nat

definition alloc :: "detail_dict \<Rightarrow> store \<Rightarrow> nat \<times> store" where
  "alloc d st = (used st, st\<lparr>cells := (cells st)(used st := d), used := Suc (used st)\<rparr>)"

record sharpe_result =
  expected_return :: real
  hv30 :: "real option"
  hv90 :: "real option"
  upside_vol :: "real option"
  downside_vol :: "real option"
  raw_sr :: "real option"
  adjusted_sr :: "real option"
  conditions_passed :: int
  condition_details :: condition_details
  condition_multiplier :: "real option"
  final_score :: "real option"
  fcf_yield :: "real option"
  rf :: real

definition compute_full_sharpe_score ::
  "store \<Rightarrow> nat \<Rightarrow> (string \<rightharpoonup> real) \<Rightarrow> real \<Rightarrow> (np_warning + sharpe_result option) \<times> store" where
  "compute_full_sharpe_score st a thresholds rf_arg =
     (let stock_detail = cells st a;
          prices = get_price_history stock_detail
      in
      case calculate_hv prices 30 of
        Inl w \<Rightarrow> (Inl w, st)
      | Inr hv_30 \<Rightarrow>
      case calculate_hv prices 90 of
        Inl w \<Rightarrow> (Inl w, st)
      | Inr hv_90 \<Rightarrow>
      case calculate_upside_downside_vol prices 30 of
        Inl w \<Rightarrow> (Inl w, st)
      | Inr (up_vol, down_vol) \<Rightarrow>
      let (b, st') = alloc (with_hv30 stock_detail hv_30) st;
          eps_gr = py_or (dget (cells st' a) ''eps_growth'') (dget (cells st' a) ''earnings_growth'');
          dividend_yield = dget (cells st' a) ''dividend_yield'';
          fcf_y = (case dget (cells st' a) ''fcf_yield'' of
                     Some v \<Rightarrow> Some v
                   | None \<Rightarrow>
                       let fcf = py_or (dget (cells st' a) ''fcf'') (dget (cells st' a) ''free_cashflow'');
                           market_cap = dget (cells st' a) ''market_cap''
                       in (case fcf of
                             None \<Rightarrow> None
                           | Some f \<Rightarrow>
                               (case market_cap of
                                  None \<Rightarrow> None
                                | Some m \<Rightarrow> if m > 0 then Some (f / m) else None)));
          exp_ret = min (calculate_expected_return eps_gr dividend_yield fcf_y) 1.0;
          (raw, adj) = (case hv_30 of
                          None \<Rightarrow> (None, None)
                        | Some h \<Rightarrow>
                            if h \<le> 0 then (None, None)
                            else (Some ((exp_ret - rf_arg) / (h * 0.8)),
                                  calculate_adjusted_sr exp_ret rf_arg hv_30 hv_90 up_vol down_vol));
          (passed, details) = count_conditions_passed (cells st' b) thresholds;
          multiplier = calculate_condition_multiplier passed
      in
      case multiplier of
        None \<Rightarrow> (Inr None, st')
      | Some m \<Rightarrow>
          let final = (case adj of Some s \<Rightarrow> Some (s * m) | None \<Rightarrow> None)
          in (Inr (Some \<lparr>expected_return = exp_ret, hv30 = hv_30, hv90 = hv_90,
                          upside_vol = up_vol, downside_vol = down_vol,
                          raw_sr = raw, adjusted_sr = adj,
                          conditions_passed = passed, condition_details = details,
                          condition_multiplier = multiplier, final_score = final,
                          fcf_yield = fcf_y, rf = rf_arg\<rparr>), st'))"

section \<open>Floats with NaN and infinities\<close>

text \<open>
  The values of a pandas series and of numpy arithmetic: a finite number (an exact real),
  an infinity or NaN. Arithmetic is IEEE arithmetic on the special values and exact on the
  finite ones; zero has no sign. Division is numpy's: a division by zero gives an infinity
  or NaN, no exception. Comparisons with NaN are false.
\<close>

datatype fl = Fin real | PInf | NInf | NaN

fun fl_isnan :: "fl \<Rightarrow> bool" where
  "fl_isnan NaN = True"
| "fl_isnan _ = False"

fun fl_neg :: "fl \<Rightarrow> fl" where
  "fl_neg (Fin a) = Fin (- a)"
| "fl_neg PInf = NInf"
| "fl_neg NInf = PInf"
| "fl_neg NaN = NaN"

fun fl_add :: "fl \<Rightarrow> fl \<Rightarrow> fl" where
  "fl_add NaN _ = NaN"
| "fl_add _ NaN = NaN"
| "fl_add (Fin a) (Fin b) = Fin (a + b)"
| "fl_add PInf NInf = NaN"
| "fl_add NInf PInf = NaN"
| "fl_add PInf _ = PInf"
| "fl_add _ PInf = PInf"
| "fl_add NInf _ = NInf"
| "fl_add _ NInf = NInf"

definition fl_sub :: "fl \<Rightarrow> fl \<Rightarrow> fl" where
  "fl_sub a b = fl_add a (fl_neg b)"

text \<open>The sign of a value that is not NaN: 1, 0 or -1.\<close>

fun fl_sgn :: "fl \<Rightarrow> int" where
  "fl_sgn (Fin a) = (if a > 0 then 1 else if a < 0 then -1 else 0)"
| "fl_sgn PInf = 1"
| "fl_sgn NInf = -1"
| "fl_sgn NaN = 0"

fun fl_mul :: "fl \<Rightarrow> fl \<Rightarrow> fl" where
  "fl_mul NaN _ = NaN"
| "fl_mul _ NaN = NaN"
| "fl_mul (Fin a) (Fin b) = Fin (a * b)"
| "fl_mul a b =
     (if fl_sgn a * fl_sgn b > 0 then PInf
      else if fl_sgn a * fl_sgn b < 0 then NInf
      else NaN)"

fun fl_div :: "fl \<Rightarrow> fl \<Rightarrow> fl" where
  "fl_div NaN _ = NaN"
| "fl_div _ NaN = NaN"
| "fl_div (Fin a) (Fin b) =
     (if b \<noteq> 0 then Fin (a / b)
      else if a > 0 then PInf
      else if a < 0 then NInf
      else NaN)"
| "fl_div (Fin a) _ = Fin 0"
| "fl_div a (Fin b) =
     (if fl_sgn a * (if b < 0 then -1 else 1) > 0 then PInf else NInf)"
| "fl_div _ _ = NaN"

fun fl_less :: "fl \<Rightarrow> fl \<Rightarrow> bool" where
  "fl_less NaN _ = False"
| "fl_less _ NaN = False"
| "fl_less (Fin a) (Fin b) = (a < b)"
| "fl_less _ NInf = False"
| "fl_less PInf _ = False"
| "fl_less NInf _ = True"
| "fl_less _ PInf = True"

fun fl_le :: "fl \<Rightarrow> fl \<Rightarrow> bool" where
  "fl_le NaN _ = False"
| "fl_le _ NaN = False"
| "fl_le (Fin a) (Fin b) = (a \<le> b)"
| "fl_le NInf _ = True"
| "fl_le _ PInf = True"
| "fl_le _ NInf = False"
| "fl_le PInf _ = False"

text \<open>Python's \<open>round(x, n)\<close>: to the nearest multiple of \<open>10\<^sup>-\<^sup>n\<close>, a tie to the even one;
  NaN and the infinities are returned as they are.\<close>

definition round_half_even :: "real \<Rightarrow> int" where
  "round_half_even x =
     (let f = \<lfloor>x\<rfloor>; d = x - of_int f
      in if d < 1 / 2 then f
         else if d > 1 / 2 then f + 1
         else if even f then f else f + 1)"

definition py_round :: "real \<Rightarrow> nat \<Rightarrow> real" where
  "py_round x n = of_int (round_half_even (x * 10 ^ n)) / 10 ^ n"

fun fl_round :: "fl \<Rightarrow> nat \<Rightarrow> fl" where
  "fl_round (Fin x) n = Fin (py_round x n)"
| "fl_round v n = v"

section \<open>src/core/_thresholds.py\<close>

text \<open>
  The cached configuration: sections of keys; it is empty when the YAML file is missing or
  unreadable. \<open>th\<close> gets it as an argument.
\<close>

type_synonym config = "string \<rightharpoonup> (string \<rightharpoonup> real)"

definition th :: "config \<Rightarrow> string \<Rightarrow> string \<Rightarrow> real \<Rightarrow> real" where
  "th cfg section key dflt =
     (case cfg section of
        None \<Rightarrow> dflt
      | Some sec \<Rightarrow> (case sec key of None \<Rightarrow> dflt | Some v \<Rightarrow> v))"

section \<open>src/core/screening/technicals.py\<close>

subsection \<open>pandas helpers\<close>

datatype py_error = ZeroDivisionError

text \<open>\<open>s.iloc[i]\<close> for a negative \<open>i\<close>, counted from the end. Every use below is guarded so
  that the position is in range.\<close>

definition iloc :: "'a list \<Rightarrow> int \<Rightarrow> 'a" where
  "iloc xs i = xs ! nat (int (length xs) + i)"

text \<open>\<open>s.iloc[a:b]\<close> for \<open>0 \<le> a\<close>.\<close>

definition iloc_slice :: "'a list \<Rightarrow> nat \<Rightarrow> nat \<Rightarrow> 'a list" where
  "iloc_slice xs a b = take (b - a) (drop a xs)"

text \<open>\<open>s.mean()\<close>: NaN for an empty series.\<close>

definition pd_mean :: "real list \<Rightarrow> fl" where
  "pd_mean xs = (if xs = [] then NaN else Fin (sum_list xs / real (length xs)))"

text \<open>\<open>s.rolling(window=w).mean()\<close> and \<open>s.rolling(window=w).std()\<close>: NaN until \<open>w\<close>
  observations are there; the standard deviation has the \<open>w - 1\<close> denominator. The windows
  used are 5, 20, 50 and 200.\<close>

definition window_at :: "real list \<Rightarrow> nat \<Rightarrow> nat \<Rightarrow> real list" where
  "window_at xs w i = take w (drop (i + 1 - w) xs)"

definition rolling_mean :: "nat \<Rightarrow> real list \<Rightarrow> fl list" where
  "rolling_mean w xs =
     map (\<lambda>i. if w = 0 \<or> i + 1 < w then NaN else pd_mean (window_at xs w i)) [0..<length xs]"

definition rolling_std :: "nat \<Rightarrow> real list \<Rightarrow> fl list" where
  "rolling_std w xs =
     map (\<lambda>i. if w < 2 \<or> i + 1 < w then NaN
              else let win = window_at xs w i; m = sum_list win / real w
                   in Fin (sqrt (sum_list (map (\<lambda>x. (x - m)\<^sup>2) win) / (real w - 1))))
         [0..<length xs]"

text \<open>\<open>s.diff()\<close>: NaN first, then the differences.\<close>

definition pd_diff :: "real list \<Rightarrow> fl list" where
  "pd_diff xs = (case xs of [] \<Rightarrow> [] | _ # _ \<Rightarrow> NaN # map Fin (np_diff xs))"

text \<open>\<open>s.ewm(alpha=\<alpha>, min_periods=m, adjust=False).mean()\<close> on a series without NaN:
  \<open>y\<^sub>0 = x\<^sub>0\<close>, \<open>y\<^sub>t = (1 - \<alpha>) y\<^bsub>t-1\<^esub> + \<alpha> x\<^sub>t\<close>, shown from the \<open>m\<close>-th observation on.\<close>

fun ewm_from :: "real \<Rightarrow> real \<Rightarrow> real list \<Rightarrow> real list" where
  "ewm_from \<alpha> y [] = []"
| "ewm_from \<alpha> y (x # xs) = ((1 - \<alpha>) * y + \<alpha> * x) # ewm_from \<alpha> ((1 - \<alpha>) * y + \<alpha> * x) xs"

definition ewm_values :: "real \<Rightarrow> real list \<Rightarrow> real list" where
  "ewm_values \<alpha> xs = (case xs of [] \<Rightarrow> [] | x # rest \<Rightarrow> x # ewm_from \<alpha> x rest)"

definition ewm_mean :: "real \<Rightarrow> nat \<Rightarrow> real list \<Rightarrow> fl list" where
  "ewm_mean \<alpha> min_periods xs =
     map (\<lambda>(t, y). if t + 1 < min_periods then NaN else Fin y)
         (zip [0..<length xs] (ewm_values \<alpha> xs))"

subsection \<open>RSI and Bollinger bands\<close>

text \<open>\<open>delta.where(delta > 0, 0.0)\<close> and \<open>(-delta).where(delta < 0, 0.0)\<close>; \<open>delta\<close> holds
  finite numbers and the leading NaN, for which both conditions are false.\<close>

fun gain_of :: "fl \<Rightarrow> real" where
  "gain_of (Fin d) = (if d > 0 then d else 0)"
| "gain_of _ = 0"

fun loss_of :: "fl \<Rightarrow> real" where
  "loss_of (Fin d) = (if d < 0 then - d else 0)"
| "loss_of _ = 0"

definition avg_gain :: "real list \<Rightarrow> nat \<Rightarrow> fl list" where
  "avg_gain close period = ewm_mean (1 / real period) period (map gain_of (pd_diff close))"

definition avg_loss :: "real list \<Rightarrow> nat \<Rightarrow> fl list" where
  "avg_loss close period = ewm_mean (1 / real period) period (map loss_of (pd_diff close))"

text \<open>\<open>1.0 / period\<close> raises for a period of 0.\<close>

definition compute_rsi :: "real list \<Rightarrow> nat \<Rightarrow> py_error + fl list" where
  "compute_rsi close period =
     (if period = 0 then Inl ZeroDivisionError
      else
        let rs = map2 fl_div (avg_gain close period) (avg_loss close period);
            rsi = map (\<lambda>r. fl_sub (Fin 100) (fl_div (Fin 100) (fl_add (Fin 1) r))) rs
        in Inr rsi)"

definition compute_bollinger_bands ::
  "real list \<Rightarrow> nat \<Rightarrow> real \<Rightarrow> fl list \<times> fl list \<times> fl list" where
  "compute_bollinger_bands close period std_dev =
     (let middle = rolling_mean period close;
          rstd = rolling_std period close;
          upper = map2 (\<lambda>m s. fl_add m (fl_mul (Fin std_dev) s)) middle rstd;
          lower = map2 (\<lambda>m s. fl_sub m (fl_mul (Fin std_dev) s)) middle rstd
      in (upper, middle, lower))"

subsection \<open>The pullback detector\<close>

text \<open>
  \<open>hist\<close> is a data frame with the columns \<open>Close\<close> and \<open>Volume\<close>: a list of bars, the most
  recent last. The report is the dict that \<open>detect_pullback_in_uptrend\<close> returns; the scores
  and percentages are Python floats computed from finite numbers, the indicator values may
  be NaN.
\<close>

record bar =
  Close :: real
  Volume :: real

record day_details =
  rsi_reversal :: bool
  rsi_depth_bonus :: bool
  bb_proximity :: bool
  volume_surge :: bool
  price_reversal :: bool

record bounce_details = day_details +
  lookback_day :: nat

record pullback_report =
  uptrend :: bool
  is_pullback :: bool
  pullback_pct :: real
  bounce_signal :: bool
  bounce_score :: real
  bounce_details :: bounce_details
  rsi :: fl
  volume_ratio :: fl
  sma50 :: fl
  sma200 :: fl
  current_price :: fl
  recent_high :: fl
  all_conditions :: bool

text \<open>\<open>{**day_details, "lookback_day": offset}\<close>.\<close>

definition with_lookback_day :: "day_details \<Rightarrow> nat \<Rightarrow> bounce_details" where
  "with_lookback_day d offset =
     \<lparr>rsi_reversal = rsi_reversal d, rsi_depth_bonus = rsi_depth_bonus d,
      bb_proximity = bb_proximity d, volume_surge = volume_surge d,
      price_reversal = price_reversal d, lookback_day = offset\<rparr>"

text \<open>The initial \<open>bounce_details\<close>, also the one of the default report.\<close>

definition no_bounce :: bounce_details where
  "no_bounce =
     \<lparr>rsi_reversal = False, rsi_depth_bonus = False, bb_proximity = False,
      volume_surge = False, price_reversal = False, lookback_day = 0\<rparr>"

definition default_report :: pullback_report where
  "default_report =
     \<lparr>uptrend = False, is_pullback = False, pullback_pct = 0.0,
      bounce_signal = False, bounce_score = 0.0, bounce_details = no_bounce,
      rsi = NaN, volume_ratio = NaN, sma50 = NaN, sma200 = NaN,
      current_price = NaN, recent_high = NaN, all_conditions = False\<rparr>"

text \<open>The thresholds of the bounce search, looked up once before the loop.\<close>

record bounce_thresholds =
  rsi_rev_lo :: real
  rsi_rev_hi :: real
  rsi_dep_lo :: real
  rsi_dep_hi :: real
  bb_prox :: real
  vol_surge :: real
  sc_rsi_rev :: real
  sc_rsi_dep :: real
  sc_bb :: real
  sc_vol :: real
  sc_price :: real
  bounce_min :: real

definition lookup_bounce_thresholds :: "config \<Rightarrow> bounce_thresholds" where
  "lookup_bounce_thresholds cfg =
     \<lparr>rsi_rev_lo = th cfg ''technicals'' ''rsi_reversal_lo'' 25.0,
      rsi_rev_hi = th cfg ''technicals'' ''rsi_reversal_hi'' 50.0,
      rsi_dep_lo = th cfg ''technicals'' ''rsi_depth_lo'' 25.0,
      rsi_dep_hi = th cfg ''technicals'' ''rsi_depth_hi'' 35.0,
      bb_prox = th cfg ''technicals'' ''bb_proximity_mult'' 1.02,
      vol_surge = th cfg ''technicals'' ''volume_surge_ratio'' 1.2,
      sc_rsi_rev = th cfg ''technicals'' ''score_rsi_reversal'' 40.0,
      sc_rsi_dep = th cfg ''technicals'' ''score_rsi_depth'' 15.0,
      sc_bb = th cfg ''technicals'' ''score_bb_proximity'' 25.0,
      sc_vol = th cfg ''technicals'' ''score_volume_surge'' 10.0,
      sc_price = th cfg ''technicals'' ''score_price_reversal'' 10.0,
      bounce_min = th cfg ''technicals'' ''bounce_signal_min'' 40.0\<rparr>"

text \<open>The body of the loop for one offset, after the \<open>break\<close> test: the score of the day
  and its details.\<close>

definition score_day ::
  "bounce_thresholds \<Rightarrow> real list \<Rightarrow> real list \<Rightarrow> fl list \<Rightarrow> fl list \<Rightarrow> nat
     \<Rightarrow> real \<times> day_details" where
  "score_day t close volume rsi_series lower_band offset =
     (let idx = - 1 - int offset;
          day_rsi = iloc rsi_series idx;
          day_prev_rsi = (if \<bar>idx - 1\<bar> < int (length rsi_series)
                          then iloc rsi_series (idx - 1) else NaN);
          day_close = iloc close idx;
          day_prev_close = (if \<bar>idx - 1\<bar> < int (length close)
                            then Fin (iloc close (idx - 1)) else NaN);
          day_lower = (if \<bar>idx\<bar> < int (length lower_band) \<and> \<not> fl_isnan (iloc lower_band idx)
                       then iloc lower_band idx else NaN);
          day_volume_ratio =
            (if \<bar>idx\<bar> < int (length volume)
             then
               let n = int (length volume);
                   day_vol_5 = pd_mean (iloc_slice volume (nat (max 0 (n + idx - 4)))
                                                          (nat (n + idx + 1)));
                   day_vol_20 = pd_mean (iloc_slice volume (nat (max 0 (n + idx - 19)))
                                                           (nat (n + idx + 1)))
               in if fl_less (Fin 0) day_vol_20 then fl_div day_vol_5 day_vol_20 else NaN
             else NaN);
          c_rsi_rev = (fl_le (Fin (rsi_rev_lo t)) day_rsi \<and> fl_le day_rsi (Fin (rsi_rev_hi t))
                       \<and> \<not> fl_isnan day_prev_rsi \<and> fl_less day_prev_rsi day_rsi);
          score1 = (if c_rsi_rev then 0.0 + sc_rsi_rev t else 0.0);
          c_rsi_dep = (fl_le (Fin (rsi_dep_lo t)) day_rsi \<and> fl_le day_rsi (Fin (rsi_dep_hi t)));
          score2 = (if c_rsi_dep then score1 + sc_rsi_dep t else score1);
          c_bb = (\<not> fl_isnan day_lower \<and> fl_less (Fin 0) day_lower
                  \<and> fl_le (Fin day_close) (fl_mul day_lower (Fin (bb_prox t))));
          score3 = (if c_bb then score2 + sc_bb t else score2);
          c_vol = (\<not> fl_isnan day_volume_ratio \<and> fl_less (Fin (vol_surge t)) day_volume_ratio);
          score4 = (if c_vol then score3 + sc_vol t else score3);
          c_price = (\<not> fl_isnan day_prev_close \<and> fl_less day_prev_close (Fin day_close));
          score5 = (if c_price then score4 + sc_price t else score4)
      in (score5,
          \<lparr>rsi_reversal = c_rsi_rev, rsi_depth_bonus = c_rsi_dep, bb_proximity = c_bb,
           volume_surge = c_vol, price_reversal = c_price\<rparr>))"

text \<open>The loop \<open>for offset in range(lookback)\<close> over the remaining offsets, with the best
  score and its details so far; \<open>day\<close> is the body for one offset.\<close>

fun bounce_loop ::
  "(nat \<Rightarrow> real \<times> day_details) \<Rightarrow> nat \<Rightarrow> nat \<Rightarrow> nat list \<Rightarrow> real \<times> bounce_details
     \<Rightarrow> real \<times> bounce_details" where
  "bounce_loop day n_close n_rsi [] best = best"
| "bounce_loop day n_close n_rsi (offset # rest) (best_score, best_details) =
     (let idx = - 1 - int offset in
      if \<bar>idx\<bar> \<ge> int n_close \<or> \<bar>idx\<bar> \<ge> int n_rsi then (best_score, best_details)
      else
        let (day_score, details) = day offset in
        if day_score > best_score
        then bounce_loop day n_close n_rsi rest (day_score, with_lookback_day details offset)
        else bounce_loop day n_close n_rsi rest (best_score, best_details))"

definition detect_pullback_in_uptrend :: "config \<Rightarrow> bar list \<Rightarrow> py_error + pullback_report" where
  "detect_pullback_in_uptrend cfg hist =
     (let close = map Close hist;
          volume = map Volume hist
      in
      if length close < 200 then Inr default_report
      else
        let sma50_series = rolling_mean 50 close;
            sma200_series = rolling_mean 200 close;
            cur_price = iloc close (- 1);
            cur_sma50 = iloc sma50_series (- 1);
            cur_sma200 = iloc sma200_series (- 1)
        in
        case compute_rsi close 14 of
          Inl e \<Rightarrow> Inl e
        | Inr rsi_series \<Rightarrow>
            let cur_rsi = iloc rsi_series (- 1);
                prev_rsi = (if length rsi_series \<ge> 2 then iloc rsi_series (- 2) else NaN);
                vol_5 = iloc (rolling_mean 5 volume) (- 1);
                vol_20 = iloc (rolling_mean 20 volume) (- 1);
                vol_ratio = (if fl_less (Fin 0) vol_20 then fl_div vol_5 vol_20 else NaN);
                high = Max (set (last_n 60 close));
                pb_pct = (if high > 0 then (cur_price - high) / high else 0.0);
                up = (fl_less cur_sma200 (Fin cur_price) \<and> fl_less cur_sma200 cur_sma50);
                pb_min = th cfg ''technicals'' ''pullback_min'' (- 0.20);
                pb_max = th cfg ''technicals'' ''pullback_max'' (- 0.05);
                is_pb = ((pb_min \<le> pb_pct \<and> pb_pct \<le> pb_max)
                         \<and> fl_less cur_sma200 (Fin cur_price));
                lower_band = snd (snd (compute_bollinger_bands close 20 2.0));
                lookback = 5;
                t = lookup_bounce_thresholds cfg;
                (score, details) =
                  bounce_loop (score_day t close volume rsi_series lower_band)
                    (length close) (length rsi_series) [0..<lookback] (0.0, no_bounce);
                signal = (score \<ge> bounce_min t);
                all_conds = (up \<and> is_pb \<and> signal)
            in Inr \<lparr>uptrend = up, is_pullback = is_pb, pullback_pct = py_round pb_pct 4,
                     bounce_signal = signal, bounce_score = py_round score 2,
                     bounce_details = details,
                     rsi = fl_round cur_rsi 2,
                     volume_ratio = (if \<not> fl_isnan vol_ratio then fl_round vol_ratio 4 else NaN),
                     sma50 = fl_round cur_sma50 2, sma200 = fl_round cur_sma200 2,
                     current_price = Fin (py_round cur_price 2),
                     recent_high = Fin (py_round high 2),
                     all_conditions = all_conds\<rparr>)"

section \<open>Formulas of the specification\<close>

definition raw_sr_formula :: "real \<Rightarrow> real \<Rightarrow> real \<Rightarrow> real" where
  "raw_sr_formula er r h = (er - r) / (h * 0.8)"

definition vol_trend_formula :: "real option \<Rightarrow> real \<Rightarrow> real" where
  "vol_trend_formula h90 h = (case h90 of Some x \<Rightarrow> x / h | None \<Rightarrow> 1)"

definition asymmetry_formula :: "real option \<Rightarrow> real option \<Rightarrow> real" where
  "asymmetry_formula u d =
     (if u \<noteq> None \<and> d \<noteq> None \<and> the d > 0 then min (the u / the d) 2 else 1)"

definition present_gt :: "real option \<Rightarrow> real \<Rightarrow> bool" where
  "present_gt x c = (case x of Some v \<Rightarrow> v > c | None \<Rightarrow> False)"

definition present_le :: "real option \<Rightarrow> real \<Rightarrow> bool" where
  "present_le x c = (case x of Some v \<Rightarrow> v \<le> c | None \<Rightarrow> False)"

definition absent_or_zero :: "real option \<Rightarrow> bool" where
  "absent_or_zero x = (case x of Some v \<Rightarrow> v = 0 | None \<Rightarrow> True)"

definition or_zero :: "real option \<Rightarrow> real" where
  "or_zero x = (case x of Some v \<Rightarrow> v | None \<Rightarrow> 0)"



text \<open>
  Historical volatility in the words of the specification: the most recent \<open>n\<close> prices, their
  log returns \<open>ln (p\<^bsub>i+1\<^esub> / p\<^bsub>i\<^esub>)\<close>, the sample standard deviation with the \<open>n - 1\<close>
  denominator, annualised by \<open>sqrt 252\<close>; a sub-volatility needs two observations.
\<close>

definition most_recent :: "nat \<Rightarrow> real list \<Rightarrow> real list" where
  "most_recent n ps = rev (take n (rev ps))"

definition log_returns :: "real list \<Rightarrow> real list" where
  "log_returns ps = map (\<lambda>i. ln (ps ! Suc i / ps ! i)) [0..<length ps - 1]"

definition sample_std :: "real list \<Rightarrow> real" where
  "sample_std xs =
     sqrt ((\<Sum>x\<leftarrow>xs. (x - (\<Sum>y\<leftarrow>xs. y) / real (length xs))\<^sup>2) / real (length xs - 1))"

definition annualized_vol :: "real list \<Rightarrow> real" where
  "annualized_vol rs = sample_std rs * sqrt 252"

definition sub_vol :: "real list \<Rightarrow> real option" where
  "sub_vol rs = (if 2 \<le> length rs then Some (annualized_vol rs) else None)"

definition hv_absent :: "real list \<Rightarrow> nat \<Rightarrow> bool" where
  "hv_absent ps w = (length ps < w + 1 \<or> (\<exists>p \<in> set (most_recent (w + 1) ps). p \<le> 0))"

text \<open>The RSI at position \<open>i\<close> of the series that \<open>compute_rsi\<close> returns.\<close>

definition rsi_at :: "real list \<Rightarrow> nat \<Rightarrow> nat \<Rightarrow> fl option" where
  "rsi_at close period i =
     (case compute_rsi close period of Inr s \<Rightarrow> Some (s ! i) | Inl e \<Rightarrow> None)"

text \<open>
  The bounce search in the words of the specification: the score and details of the day at
  each of the five offsets, the best score, and the first offset that attains it. With the
  default thresholds a day scores 40, 15, 25, 10 and 10 points for its five details.
\<close>

definition no_day_details :: day_details where
  "no_day_details =
     \<lparr>rsi_reversal = False, rsi_depth_bonus = False, bb_proximity = False,
      volume_surge = False, price_reversal = False\<rparr>"

definition day_result :: "config \<Rightarrow> bar list \<Rightarrow> nat \<Rightarrow> real \<times> day_details" where
  "day_result cfg hist offset =
     (case compute_rsi (map Close hist) 14 of
        Inl e \<Rightarrow> (0, no_day_details)
      | Inr rsi_series \<Rightarrow>
          score_day (lookup_bounce_thresholds cfg) (map Close hist) (map Volume hist) rsi_series
            (snd (snd (compute_bollinger_bands (map Close hist) 20 2.0))) offset)"

definition best_score :: "config \<Rightarrow> bar list \<Rightarrow> real" where
  "best_score cfg hist = Max ((\<lambda>k. fst (day_result cfg hist k)) ` set [0..<5])"

definition best_offset :: "config \<Rightarrow> bar list \<Rightarrow> nat" where
  "best_offset cfg hist =
     hd (filter (\<lambda>k. fst (day_result cfg hist k) = best_score cfg hist) [0..<5])"

definition flag_score :: "day_details \<Rightarrow> int" where
  "flag_score d =
     (if rsi_reversal d then 40 else 0) + (if rsi_depth_bonus d then 15 else 0)
     + (if bb_proximity d then 25 else 0) + (if volume_surge d then 10 else 0)
     + (if price_reversal d then 10 else 0)"

definition default_bounce_thresholds :: bounce_thresholds where
  "default_bounce_thresholds =
     \<lparr>rsi_rev_lo = 25.0, rsi_rev_hi = 50.0, rsi_dep_lo = 25.0, rsi_dep_hi = 35.0,
      bb_prox = 1.02, vol_surge = 1.2, sc_rsi_rev = 40.0, sc_rsi_dep = 15.0,
      sc_bb = 25.0, sc_vol = 10.0, sc_price = 10.0, bounce_min = 40.0\<rparr>"

section \<open>Example inputs\<close>

definition mk_detail :: "(string \<times> real option) list \<Rightarrow> detail_dict" where
  "mk_detail kvs = \<lparr>price_history = None, entries = map_of kvs\<rparr>"

definition mk_store :: "detail_dict \<Rightarrow> store" where
  "mk_store d = \<lparr>cells = (\<lambda>_. d), used = 1\<rparr>"

definition example_detail :: detail_dict where
  "example_detail = mk_detail
     [(''per'', Some 10), (''pbr'', Some 1), (''equity_ratio'', Some 0.5),
      (''operating_cashflow'', Some 100), (''net_income'', Some 50), (''fcf'', Some 10),
      (''eps_growth'', Some 0.6), (''revenue_growth'', Some 0.1), (''roe'', Some 0.1),
      (''dividend_yield'', Some 0.6), (''fcf_yield'', Some 0), (''hv30'', Some 0.1)]"

definition no_thresholds :: "string \<rightharpoonup> real" where
  "no_thresholds = Map.empty"

definition zero_net_income_detail :: detail_dict where
  "zero_net_income_detail = mk_detail
     [(''equity_ratio'', Some 0.5), (''operating_cashflow'', Some 100),
      (''net_income'', Some 0), (''fcf'', Some 10)]"

definition zero_fcf_detail :: detail_dict where
  "zero_fcf_detail = mk_detail
     [(''per'', Some 10), (''pbr'', Some 1), (''equity_ratio'', Some 0.5),
      (''operating_cashflow'', Some 100), (''netIncome'', Some 50),
      (''fcf'', Some 0), (''freeCashflow'', Some 10), (''market_cap'', Some 1000),
      (''eps_growth'', Some 0), (''earningsGrowth'', Some 0.1),
      (''revenue_growth'', Some 0.1), (''roe'', Some 0.1)]"

definition zero_net_income_stmt_detail :: detail_dict where
  "zero_net_income_stmt_detail = mk_detail
     [(''equity_ratio'', Some 0.5), (''operating_cashflow'', Some 100),
      (''netIncome'', Some 0), (''fcf'', Some 10)]"

definition flat_close :: "real list" where
  "flat_close = replicate 15 100"

definition rising_close :: "real list" where
  "rising_close = [1, 2, 3]"

definition falling_close :: "real list" where
  "falling_close = [3, 2, 4]"

definition one_bar :: "bar list" where
  "one_bar = [\<lparr>Close = 100, Volume = 5\<rparr>]"


section \<open>Auxiliary lemmas\<close>

lemma length_np_diff: "length (np_diff xs) = length xs - 1"
  by (induction xs rule: np_diff.induct) auto

lemma length_last_n: "length (last_n n xs) = min n (length xs)"
  by (simp add: last_n_def)

lemma calculate_hv_returns:
  assumes "2 \<le> w"
  shows "\<exists>v. calculate_hv ps w = Inr v"
proof (cases "length ps < w + 1 \<or> list_ex (\<lambda>p. p \<le> 0) (last_n (w + 1) ps)")
  case True
  then show ?thesis by (auto simp: calculate_hv_def Let_def)
next
  case False
  then have "length (np_diff (map ln (last_n (w + 1) ps))) = w"
    by (simp add: length_np_diff length_last_n)
  with assms False show ?thesis
    by (auto simp: calculate_hv_def Let_def np_std_ddof1_def)
qed

lemma calculate_upside_downside_vol_returns:
  "\<exists>u d. calculate_upside_downside_vol ps w = Inr (u, d)"
  by (simp add: calculate_upside_downside_vol_def Let_def np_std_ddof1_def)

lemma cells_alloc_old: "a < used st \<Longrightarrow> cells (snd (alloc d st)) a = cells st a"
  by (simp add: alloc_def)



lemma orchestrator_expected_return:
  assumes "a < used st" and "fst (compute_full_sharpe_score st a ths r) = Inr (Some x)"
  shows "expected_return x =
           min (calculate_expected_return
                  (py_or (dget (cells st a) ''eps_growth'') (dget (cells st a) ''earnings_growth''))
                  (dget (cells st a) ''dividend_yield'') (fcf_yield x)) 1"
proof -
  obtain h where h: "calculate_hv (get_price_history (cells st a)) 30 = Inr h"
    using calculate_hv_returns [of 30] by auto
  obtain h' where h': "calculate_hv (get_price_history (cells st a)) 90 = Inr h'"
    using calculate_hv_returns [of 90] by auto
  obtain u d where ud: "calculate_upside_downside_vol (get_price_history (cells st a)) 30 = Inr (u, d)"
    using calculate_upside_downside_vol_returns by blast
  show ?thesis
    using assms h h' ud
    by (auto simp: compute_full_sharpe_score_def Let_def split_def
          cells_alloc_old split: option.splits)
qed

lemma orchestrator_fcf_yield:
  assumes "a < used st" and "fst (compute_full_sharpe_score st a ths r) = Inr (Some x)"
  shows "fcf_yield x =
           (case dget (cells st a) ''fcf_yield'' of
              Some v \<Rightarrow> Some v
            | None \<Rightarrow>
                (case py_or (dget (cells st a) ''fcf'') (dget (cells st a) ''free_cashflow'') of
                   None \<Rightarrow> None
                 | Some f \<Rightarrow>
                     (case dget (cells st a) ''market_cap'' of
                        None \<Rightarrow> None
                      | Some m \<Rightarrow> if m > 0 then Some (f / m) else None)))"
proof -
  obtain h where h: "calculate_hv (get_price_history (cells st a)) 30 = Inr h"
    using calculate_hv_returns [of 30] by auto
  obtain h' where h': "calculate_hv (get_price_history (cells st a)) 90 = Inr h'"
    using calculate_hv_returns [of 90] by auto
  obtain u d where ud: "calculate_upside_downside_vol (get_price_history (cells st a)) 30 = Inr (u, d)"
    using calculate_upside_downside_vol_returns by blast
  show ?thesis
    using assms h h' ud
    by (auto simp: compute_full_sharpe_score_def Let_def split_def
          cells_alloc_old split: option.splits)
qed

lemma orchestrator_store:
  assumes "a < used st"
  shows "\<exists>h. calculate_hv (get_price_history (cells st a)) 30 = Inr h
     \<and> snd (compute_full_sharpe_score st a ths r) = snd (alloc (with_hv30 (cells st a) h) st)"
proof -
  obtain h where h: "calculate_hv (get_price_history (cells st a)) 30 = Inr h"
    using calculate_hv_returns [of 30] by auto
  obtain h' where h': "calculate_hv (get_price_history (cells st a)) 90 = Inr h'"
    using calculate_hv_returns [of 90] by auto
  obtain u d where ud: "calculate_upside_downside_vol (get_price_history (cells st a)) 30 = Inr (u, d)"
    using calculate_upside_downside_vol_returns by blast
  show ?thesis
    using assms h h' ud
    by (auto simp: compute_full_sharpe_score_def Let_def split_def
          cells_alloc_old split: option.splits)
qed

lemma py_or_absent_or_zero:
  "absent_or_zero a \<Longrightarrow> py_or a b = b"
  by (auto simp: py_or_def absent_or_zero_def split: option.splits)

lemma py_or_truthy:
  "\<not> absent_or_zero a \<Longrightarrow> py_or a b = a"
  by (auto simp: py_or_def absent_or_zero_def split: option.splits)

lemma count_conditions_stability:
  "financial_stability (snd (count_conditions_passed d ths)) =
     check_financial_stability (dget d ''equity_ratio'')
       (py_or (dget d ''operating_cashflow'') (dget d ''operatingCashflow''))
       (py_or (py_or (dget d ''net_income_stmt'') (dget d ''netIncome'')) (dget d ''net_income''))
       (py_or (py_or (dget d ''fcf'') (dget d ''free_cashflow'')) (dget d ''freeCashflow''))
       (py_or (dget d ''total_debt'') (dget d ''totalDebt''))
       (dget d ''ebitda'')"
  by (simp add: count_conditions_passed_def Let_def)

subsection \<open>Volatility\<close>

lemma last_n_most_recent: "last_n n ps = most_recent n ps"
  by (simp add: last_n_def most_recent_def take_rev)

lemma np_diff_nth: "i < length xs - 1 \<Longrightarrow> np_diff xs ! i = xs ! Suc i - xs ! i"
proof (induction xs arbitrary: i rule: np_diff.induct)
  case (1 a b xs)
  then show ?case by (cases i) auto
qed auto

lemma np_diff_log:
  assumes "\<forall>p \<in> set ps. 0 < p"
  shows "np_diff (map ln ps) = log_returns ps"
proof (rule nth_equalityI)
  show "length (np_diff (map ln ps)) = length (log_returns ps)"
    by (simp add: length_np_diff log_returns_def)
next
  fix i assume "i < length (np_diff (map ln ps))"
  then have i: "i < length ps - 1" by (simp add: length_np_diff)
  then have "0 < ps ! i" "0 < ps ! Suc i" using assms by auto
  then have "ln (ps ! Suc i / ps ! i) = ln (ps ! Suc i) - ln (ps ! i)"
    by (simp add: ln_div)
  with i show "np_diff (map ln ps) ! i = log_returns ps ! i"
    by (simp add: np_diff_nth log_returns_def)
qed

lemma np_std_sample_std:
  "2 \<le> length xs \<Longrightarrow> np_std_ddof1 xs = Inr (sample_std xs)"
  by (simp add: np_std_ddof1_def sample_std_def np_mean_def of_nat_diff)

lemma np_std_undefined:
  "length xs < 2 \<Longrightarrow> np_std_ddof1 xs = Inl DegreesOfFreedom"
  by (simp add: np_std_ddof1_def)

lemma length_log_returns: "length (log_returns ps) = length ps - 1"
  by (simp add: log_returns_def)

lemma length_most_recent: "length (most_recent n ps) = min n (length ps)"
  by (simp add: most_recent_def min.commute)

lemma calculate_hv_absent: "hv_absent ps w \<Longrightarrow> calculate_hv ps w = Inr None"
  by (auto simp: calculate_hv_def hv_absent_def last_n_most_recent list_ex_iff Let_def)

lemma calculate_hv_present:
  assumes "\<not> hv_absent ps w"
  shows "calculate_hv ps w =
     (case np_std_ddof1 (log_returns (most_recent (w + 1) ps)) of
        Inl e \<Rightarrow> Inl e | Inr s \<Rightarrow> Inr (Some (s * sqrt 252)))"
proof -
  from assms have pos: "\<forall>p \<in> set (most_recent (w + 1) ps). 0 < p"
    and len: "\<not> length ps < w + 1"
    by (auto simp: hv_absent_def not_le)
  then have "\<not> list_ex (\<lambda>p. p \<le> 0) (most_recent (w + 1) ps)"
    by (auto simp: list_ex_iff)
  with len np_diff_log [OF pos] show ?thesis
    by (simp add: calculate_hv_def last_n_most_recent Let_def)
qed

lemma calculate_ud_absent:
  "hv_absent ps w \<Longrightarrow> calculate_upside_downside_vol ps w = Inr (None, None)"
  by (auto simp: calculate_upside_downside_vol_def hv_absent_def last_n_most_recent
        list_ex_iff Let_def)

lemma calculate_ud_present:
  assumes "\<not> hv_absent ps w"
  shows "calculate_upside_downside_vol ps w =
     Inr (sub_vol (filter (\<lambda>r. 0 < r) (log_returns (most_recent (w + 1) ps))),
          sub_vol (filter (\<lambda>r. r < 0) (log_returns (most_recent (w + 1) ps))))"
proof -
  from assms have pos: "\<forall>p \<in> set (most_recent (w + 1) ps). 0 < p"
    and len: "\<not> length ps < w + 1"
    by (auto simp: hv_absent_def not_le)
  then have "\<not> list_ex (\<lambda>p. p \<le> 0) (most_recent (w + 1) ps)"
    by (auto simp: list_ex_iff)
  with len np_diff_log [OF pos] show ?thesis
    by (simp add: calculate_upside_downside_vol_def last_n_most_recent Let_def
          sub_vol_def annualized_vol_def np_std_sample_std not_less)
qed

subsection \<open>Wilder smoothing and the RSI\<close>

lemma length_ewm_from: "length (ewm_from \<alpha> y xs) = length xs"
  by (induction xs arbitrary: y) auto

lemma length_ewm_values: "length (ewm_values \<alpha> xs) = length xs"
  by (simp add: ewm_values_def length_ewm_from split: list.splits)

lemma ewm_from_nonneg:
  "0 \<le> \<alpha> \<Longrightarrow> \<alpha> \<le> 1 \<Longrightarrow> 0 \<le> y \<Longrightarrow> \<forall>x \<in> set xs. 0 \<le> x
     \<Longrightarrow> \<forall>v \<in> set (ewm_from \<alpha> y xs). 0 \<le> v"
proof (induction xs arbitrary: y)
  case Nil
  then show ?case by simp
next
  case (Cons x xs)
  have nn: "0 \<le> (1 - \<alpha>) * y + \<alpha> * x"
    using Cons.prems by simp
  have "\<forall>v \<in> set (ewm_from \<alpha> ((1 - \<alpha>) * y + \<alpha> * x) xs). 0 \<le> v"
    using Cons.IH [of "(1 - \<alpha>) * y + \<alpha> * x"] Cons.prems nn by simp
  with nn show ?case by simp
qed

lemma ewm_values_nonneg:
  assumes "0 \<le> \<alpha>" "\<alpha> \<le> 1" "\<forall>x \<in> set xs. 0 \<le> x"
  shows "\<forall>v \<in> set (ewm_values \<alpha> xs). 0 \<le> v"
proof (cases xs)
  case Nil
  then show ?thesis by (simp add: ewm_values_def)
next
  case (Cons x rest)
  then have "0 \<le> x" "\<forall>v \<in> set rest. 0 \<le> v" using assms(3) by simp_all
  with ewm_from_nonneg [OF assms(1,2), of x rest] Cons show ?thesis
    by (simp add: ewm_values_def)
qed

lemma ewm_mean_nth:
  assumes "i < length xs"
  shows "ewm_mean \<alpha> m xs ! i = (if i + 1 < m then NaN else Fin (ewm_values \<alpha> xs ! i))"
  using assms by (simp add: ewm_mean_def length_ewm_values)

lemma length_pd_diff: "length (pd_diff xs) = length xs"
  by (cases xs) (simp_all add: pd_diff_def length_np_diff)

lemma gain_of_nonneg: "0 \<le> gain_of d"
  by (cases d) auto

lemma loss_of_nonneg: "0 \<le> loss_of d"
  by (cases d) auto

lemma avg_gain_nth:
  assumes "0 < period" "i < length close"
  shows "avg_gain close period ! i = NaN \<and> avg_loss close period ! i = NaN
       \<or> (\<exists>g l. avg_gain close period ! i = Fin g \<and> avg_loss close period ! i = Fin l
              \<and> 0 \<le> g \<and> 0 \<le> l)"
proof -
  let ?\<alpha> = "1 / real period"
  let ?G = "map gain_of (pd_diff close)" and ?L = "map loss_of (pd_diff close)"
  have a: "0 \<le> ?\<alpha>" "?\<alpha> \<le> 1" using assms(1) by simp_all
  have i: "i < length ?G" "i < length ?L" using assms(2) by (simp_all add: length_pd_diff)
  have "\<forall>v \<in> set (ewm_values ?\<alpha> ?G). 0 \<le> v"
    by (rule ewm_values_nonneg [OF a]) (auto simp: gain_of_nonneg)
  with i have g: "0 \<le> ewm_values ?\<alpha> ?G ! i" by (simp add: length_ewm_values)
  have "\<forall>v \<in> set (ewm_values ?\<alpha> ?L). 0 \<le> v"
    by (rule ewm_values_nonneg [OF a]) (auto simp: loss_of_nonneg)
  with i have l: "0 \<le> ewm_values ?\<alpha> ?L ! i" by (simp add: length_ewm_values)
  show ?thesis
    unfolding avg_gain_def avg_loss_def ewm_mean_nth [OF i(1)] ewm_mean_nth [OF i(2)]
    using g l by simp
qed

lemma length_avg: "length (avg_gain close period) = length close"
  "length (avg_loss close period) = length close"
  by (simp_all add: avg_gain_def avg_loss_def ewm_mean_def length_ewm_values length_pd_diff)

lemma rsi_at_eq:
  assumes "0 < period" "i < length close"
  shows "rsi_at close period i =
     Some (fl_sub (Fin 100) (fl_div (Fin 100)
             (fl_add (Fin 1) (fl_div (avg_gain close period ! i) (avg_loss close period ! i)))))"
  using assms by (simp add: rsi_at_def compute_rsi_def Let_def length_avg)

lemma rsi_value:
  assumes "0 \<le> g" "0 < l"
  shows "\<exists>r. fl_sub (Fin 100) (fl_div (Fin 100) (fl_add (Fin 1) (fl_div (Fin g) (Fin l)))) = Fin r
     \<and> 0 \<le> r \<and> r \<le> 100"
proof -
  have "0 \<le> g / l" using assms by simp
  then have p: "1 \<le> 1 + g / l" by simp
  then have "100 / (1 + g / l) \<le> 100 / 1"
    by (intro divide_left_mono) simp_all
  moreover have "0 \<le> 100 / (1 + g / l)" using p by simp
  moreover have "1 + g / l \<noteq> 0" using p by linarith
  ultimately show ?thesis using assms by (simp add: fl_sub_def)
qed

subsection \<open>The bounce search\<close>

lemma Max_insert_less:
  assumes "finite A" "s < x"
  shows "Max (insert s (insert x A)) = Max (insert x A)"
proof -
  have 1: "Max (insert s (insert x A)) = max s (Max (insert x A))"
    by (rule Max_insert) (use assms in auto)
  have "x \<le> Max (insert x A)"
    by (rule Max_ge) (use assms in auto)
  then have "s \<le> Max (insert x A)" using assms(2) by order
  then show ?thesis unfolding 1 by (rule max_absorb2)
qed

lemma Max_insert_le:
  assumes "finite A" "x \<le> s"
  shows "Max (insert s (insert x A)) = Max (insert s A)"
proof -
  have 0: "insert s (insert x A) = insert x (insert s A)" by auto
  have 1: "Max (insert x (insert s A)) = max x (Max (insert s A))"
    by (rule Max_insert) (use assms in auto)
  have "s \<le> Max (insert s A)"
    by (rule Max_ge) (use assms in auto)
  then have "x \<le> Max (insert s A)" using assms(2) by order
  then show ?thesis unfolding 0 1 by (rule max_absorb2)
qed

lemma bounce_loop_step:
  assumes "Suc k < nc" "Suc k < nr"
  shows "bounce_loop day nc nr (k # ks) (s, d) =
     (if fst (day k) > s
      then bounce_loop day nc nr ks (fst (day k), with_lookback_day (snd (day k)) k)
      else bounce_loop day nc nr ks (s, d))"
proof -
  have "\<not> (\<bar>- 1 - int k\<bar> \<ge> int nc \<or> \<bar>- 1 - int k\<bar> \<ge> int nr)"
    using assms by linarith
  then show ?thesis
    by (simp only: bounce_loop.simps Let_def if_False split_def)
qed

lemma Max_cons_less:
  assumes "s < f k"
  shows "Max (insert s (f ` set (k # ks))) = Max (insert (f k) (f ` set ks))"
proof -
  have "f ` set (k # ks) = insert (f k) (f ` set ks)" by simp
  then show ?thesis
    using Max_insert_less [of "f ` set ks" s "f k"] assms by simp
qed

lemma Max_cons_le:
  assumes "f k \<le> s"
  shows "Max (insert s (f ` set (k # ks))) = Max (insert s (f ` set ks))"
proof -
  have "f ` set (k # ks) = insert (f k) (f ` set ks)" by simp
  then show ?thesis
    using Max_insert_le [of "f ` set ks" "f k" s] assms by simp
qed

lemma bounce_loop_score:
  assumes "\<forall>k \<in> set ks. Suc k < nc \<and> Suc k < nr"
  shows "fst (bounce_loop day nc nr ks (s, d)) = Max (insert s ((\<lambda>k. fst (day k)) ` set ks))"
  using assms
proof (induction ks arbitrary: s d)
  case Nil
  then show ?case by simp
next
  case (Cons k ks)
  then have k: "Suc k < nc" "Suc k < nr"
    and ks: "\<forall>k \<in> set ks. Suc k < nc \<and> Suc k < nr"
    by simp_all
  show ?case
  proof (cases "fst (day k) > s")
    case True
    have m: "Max (insert s ((\<lambda>k. fst (day k)) ` set (k # ks)))
        = Max (insert (fst (day k)) ((\<lambda>k. fst (day k)) ` set ks))"
      using Max_cons_less [where f = "\<lambda>k. fst (day k)" and k = k and s = s and ks = ks] True
      by blast
    show ?thesis
      unfolding m bounce_loop_step [OF k] using True
      by (simp only: if_True Cons.IH [OF ks])
  next
    case False
    have m: "Max (insert s ((\<lambda>k. fst (day k)) ` set (k # ks)))
        = Max (insert s ((\<lambda>k. fst (day k)) ` set ks))"
      using Max_cons_le [where f = "\<lambda>k. fst (day k)" and k = k and s = s and ks = ks] False
      by (simp only: not_less)
    show ?thesis
      unfolding m bounce_loop_step [OF k] using False
      by (simp only: if_False Cons.IH [OF ks])
  qed
qed

lemma bounce_loop_details:
  assumes "\<forall>k \<in> set ks. Suc k < nc \<and> Suc k < nr"
  shows "snd (bounce_loop day nc nr ks (s, d)) =
     (let m = Max (insert s ((\<lambda>k. fst (day k)) ` set ks)) in
      if m > s
      then with_lookback_day (snd (day (hd (filter (\<lambda>k. fst (day k) = m) ks))))
                             (hd (filter (\<lambda>k. fst (day k) = m) ks))
      else d)"
  using assms
proof (induction ks arbitrary: s d)
  case Nil
  then show ?case by simp
next
  case (Cons k ks)
  then have k: "Suc k < nc" "Suc k < nr"
    and ks: "\<forall>k \<in> set ks. Suc k < nc \<and> Suc k < nr"
    by simp_all
  let ?F = "(\<lambda>k. fst (day k)) ` set ks"
  show ?case
  proof (cases "fst (day k) > s")
    case True
    let ?m = "Max (insert (fst (day k)) ?F)"
    have m: "Max (insert s ((\<lambda>k. fst (day k)) ` set (k # ks))) = ?m"
      using Max_cons_less [where f = "\<lambda>k. fst (day k)" and k = k and s = s and ks = ks] True
      by blast
    have ge: "fst (day k) \<le> ?m" by (rule Max_ge) auto
    have ih: "snd (bounce_loop day nc nr ks (fst (day k), with_lookback_day (snd (day k)) k)) =
       (if ?m > fst (day k)
        then with_lookback_day (snd (day (hd (filter (\<lambda>j. fst (day j) = ?m) ks))))
                             (hd (filter (\<lambda>j. fst (day j) = ?m) ks))
        else with_lookback_day (snd (day k)) k)"
      using Cons.IH [OF ks, of "fst (day k)" "with_lookback_day (snd (day k)) k"]
      by (simp only: Let_def)
    have gt: "?m > s" using True ge by linarith
    show ?thesis
    proof (cases "?m > fst (day k)")
      case True
      then have ne: "fst (day k) \<noteq> ?m" by simp
      show ?thesis
        unfolding m bounce_loop_step [OF k] Let_def
        using \<open>fst (day k) > s\<close> gt True ne ih
        by (simp only: if_True filter.simps if_False)
    next
      case False
      with ge have eq: "fst (day k) = ?m" by linarith
      show ?thesis
        unfolding m bounce_loop_step [OF k] Let_def
        using \<open>fst (day k) > s\<close> gt False eq ih
        by (simp del: bounce_loop.simps Max_insert)
    qed
  next
    case False
    let ?m = "Max (insert s ?F)"
    have m: "Max (insert s ((\<lambda>k. fst (day k)) ` set (k # ks))) = ?m"
      using Max_cons_le [where f = "\<lambda>k. fst (day k)" and k = k and s = s and ks = ks] False
      by (simp only: not_less)
    have ih: "snd (bounce_loop day nc nr ks (s, d)) =
       (if ?m > s
        then with_lookback_day (snd (day (hd (filter (\<lambda>j. fst (day j) = ?m) ks))))
                             (hd (filter (\<lambda>j. fst (day j) = ?m) ks))
        else d)"
      using Cons.IH [OF ks, of s d] by (simp only: Let_def)
    show ?thesis
    proof (cases "?m > s")
      case True
      with False have ne: "fst (day k) \<noteq> ?m" by linarith
      show ?thesis
        unfolding m bounce_loop_step [OF k] Let_def
        using False True ne ih
        by (simp only: if_True filter.simps if_False)
    next
      case nm: False
      show ?thesis
        unfolding m bounce_loop_step [OF k] Let_def
        using False nm ih
        by (simp only: if_False)
    qed
  qed
qed

lemma lookup_default:
  "cfg ''technicals'' = None \<Longrightarrow> lookup_bounce_thresholds cfg = default_bounce_thresholds"
  by (simp add: lookup_bounce_thresholds_def default_bounce_thresholds_def th_def)

lemma score_day_flags:
  "fst (score_day default_bounce_thresholds c v r l k)
     = real_of_int (flag_score (snd (score_day default_bounce_thresholds c v r l k)))"
  by (simp add: score_day_def Let_def flag_score_def default_bounce_thresholds_def)

lemma flag_score_range: "0 \<le> flag_score d" "flag_score d \<le> 100"
  by (simp_all add: flag_score_def)

lemma flag_score_zero: "flag_score d = 0 \<Longrightarrow> with_lookback_day d 0 = no_bounce"
  by (simp add: flag_score_def with_lookback_day_def no_bounce_def split: if_splits)

lemma round_half_even_int: "round_half_even (of_int n) = n"
  by (simp add: round_half_even_def)

lemma py_round_int: "py_round (of_int n) 2 = of_int n"
proof -
  have "(of_int n :: real) * 10 ^ 2 = of_int (n * 100)" by simp
  then have "round_half_even (of_int n * 10 ^ 2) = n * 100"
    by (simp only: round_half_even_int)
  then show ?thesis by (simp add: py_round_def)
qed

lemma compute_rsi_returns:
  "0 < p \<Longrightarrow> \<exists>s. compute_rsi c p = Inr s \<and> length s = length c"
  by (simp add: compute_rsi_def Let_def length_avg)

subsection \<open>The example snapshot, evaluated\<close>

lemma ex_hv: "calculate_hv [] w = Inr None"
  by (simp add: calculate_hv_def)

lemma ex_ud: "calculate_upside_downside_vol [] w = Inr (None, None)"
  by (simp add: calculate_upside_downside_vol_def)

lemma ex_count: "count_conditions_passed (with_hv30 example_detail None) Map.empty
   = (3, \<lparr>low_volatility = False, undervalued = True, financial_stability = True,
                     eps_growth = True, catalyst = None\<rparr>)"
  by (simp add: count_conditions_passed_def with_hv30_def example_detail_def mk_detail_def dget_def
    py_or_def tget_def check_low_volatility_def check_undervalued_def check_financial_stability_def
    check_eps_growth_def Let_def)

lemma ex_ph: "get_price_history example_detail = []"
  by (simp add: get_price_history_def example_detail_def mk_detail_def)

lemma ex_run: "fst (compute_full_sharpe_score (mk_store example_detail) 0 Map.empty 0.005)
  = Inr (Some \<lparr>expected_return = 1, hv30 = None, hv90 = None,
                          upside_vol = None, downside_vol = None,
                          raw_sr = None, adjusted_sr = None,
                          conditions_passed = 3, condition_details = \<lparr>low_volatility = False, undervalued = True, financial_stability = True,
                     eps_growth = True, catalyst = None\<rparr>,
                          condition_multiplier = Some 0.8, final_score = None,
                          fcf_yield = Some 0, rf = 0.005\<rparr>)"
  apply (simp add: compute_full_sharpe_score_def mk_store_def alloc_def ex_ph ex_hv ex_ud ex_count Let_def)
  apply (simp add: example_detail_def mk_detail_def dget_def py_or_def calculate_expected_return_def calculate_condition_multiplier_def)
  done


lemma zf_ph: "get_price_history zero_fcf_detail = []"
  by (simp add: get_price_history_def zero_fcf_detail_def mk_detail_def)

lemma zf_count: "count_conditions_passed (with_hv30 zero_fcf_detail None) Map.empty
   = (3, \<lparr>low_volatility = False, undervalued = True, financial_stability = True,
                     eps_growth = True, catalyst = None\<rparr>)"
  by (simp add: count_conditions_passed_def with_hv30_def zero_fcf_detail_def mk_detail_def dget_def
    py_or_def tget_def check_low_volatility_def check_undervalued_def check_financial_stability_def
    check_eps_growth_def Let_def)

lemma zf_run: "fst (compute_full_sharpe_score (mk_store zero_fcf_detail) 0 Map.empty 0.005)
  = Inr (Some \<lparr>expected_return = 0, hv30 = None, hv90 = None,
                upside_vol = None, downside_vol = None,
                raw_sr = None, adjusted_sr = None,
                conditions_passed = 3,
                condition_details = \<lparr>low_volatility = False, undervalued = True,
                   financial_stability = True, eps_growth = True, catalyst = None\<rparr>,
                condition_multiplier = Some 0.8, final_score = None,
                fcf_yield = None, rf = 0.005\<rparr>)"
  apply (simp add: compute_full_sharpe_score_def mk_store_def alloc_def zf_ph ex_hv ex_ud zf_count Let_def)
  apply (simp add: zero_fcf_detail_def mk_detail_def dget_def py_or_def calculate_expected_return_def calculate_condition_multiplier_def)
  done


section \<open>Theorems\<close>

subsection \<open>The adjusted Sharpe ratio\<close>

text \<open>
  Claim C1. \<open>calculate_adjusted_sr\<close> returns \<open>None\<close> whenever \<open>hv30\<close> is absent or not
  positive, whatever the other arguments are. Otherwise it returns the product of the raw
  ratio \<open>(expected_return - rf) / (hv30 * 0.8)\<close>, the volatility trend \<open>hv90 / hv30\<close>
  (1 when \<open>hv90\<close> is absent) and the asymmetry \<open>min (upside_vol / downside_vol) 2\<close>
  (1 unless both are present and \<open>downside_vol\<close> is positive).
\<close>

theorem calculate_adjusted_sr_spec:
  "(h30 = None \<or> present_le h30 0
      \<longrightarrow> calculate_adjusted_sr er r h30 h90 u d = None)
   \<and> (present_gt h30 0
      \<longrightarrow> calculate_adjusted_sr er r h30 h90 u d
          = Some (raw_sr_formula er r (the h30) * vol_trend_formula h90 (the h30)
                  * asymmetry_formula u d))"
  by (auto simp: calculate_adjusted_sr_def raw_sr_formula_def vol_trend_formula_def
        asymmetry_formula_def present_gt_def present_le_def Let_def split: option.splits)

theorem calculate_adjusted_sr_spec_witness:
  "calculate_adjusted_sr 0.1 0.005 (Some 0) (Some 0.3) (Some 0.3) (Some 0.1) = None
   \<and> calculate_adjusted_sr 0.1 0.005 None (Some 0.3) (Some 0.3) (Some 0.1) = None
   \<and> calculate_adjusted_sr 0.165 0.005 (Some 0.2) (Some 0.3) (Some 0.3) (Some 0.1) = Some 3
   \<and> calculate_adjusted_sr 0.165 0.005 (Some 0.2) None (Some 0.3) None = Some 1"
  using calculate_adjusted_sr_spec [where ?h30.0 = "Some 0" and er = "0.1" and r = "0.005"
      and ?h90.0 = "Some 0.3" and u = "Some 0.3" and d = "Some 0.1"]
    calculate_adjusted_sr_spec [where ?h30.0 = None and er = "0.1" and r = "0.005"
      and ?h90.0 = "Some 0.3" and u = "Some 0.3" and d = "Some 0.1"]
    calculate_adjusted_sr_spec [where ?h30.0 = "Some 0.2" and er = "0.165" and r = "0.005"
      and ?h90.0 = "Some 0.3" and u = "Some 0.3" and d = "Some 0.1"]
    calculate_adjusted_sr_spec [where ?h30.0 = "Some 0.2" and er = "0.165" and r = "0.005"
      and ?h90.0 = None and u = "Some 0.3" and d = None]
  by (simp add: raw_sr_formula_def vol_trend_formula_def asymmetry_formula_def
        present_gt_def present_le_def)

subsection \<open>Financial stability\<close>

text \<open>
  Claim C3. The financial-stability condition holds exactly when the equity ratio is present
  and above 0.40, operating cash flow and net income are present with the former larger,
  free cash flow is present and positive, the ratio of debt (0 when missing) to a positive
  EBITDA is below 3, and EBITDA is not present-and-non-positive. With EBITDA absent the
  other three checks decide alone. The two scenarios of the specification evaluate as it
  says: EBITDA absent passes, EBITDA 0 fails.
\<close>

theorem check_financial_stability_spec:
  "(check_financial_stability eq ocf ni f td eb \<longleftrightarrow>
      present_gt eq 0.40
    \<and> (ocf \<noteq> None \<and> ni \<noteq> None \<and> the ocf > the ni)
    \<and> present_gt f 0
    \<and> (present_gt eb 0 \<longrightarrow> or_zero td / the eb < 3.0)
    \<and> \<not> present_le eb 0)
   \<and> (eb = None \<longrightarrow>
        (check_financial_stability eq ocf ni f td eb \<longleftrightarrow>
           present_gt eq 0.40 \<and> (ocf \<noteq> None \<and> ni \<noteq> None \<and> the ocf > the ni) \<and> present_gt f 0))
   \<and> check_financial_stability (Some 0.5) (Some 100) (Some 50) (Some 10) (Some 0) None
   \<and> \<not> check_financial_stability (Some 0.5) (Some 100) (Some 50) (Some 10) (Some 0) (Some 0)"
  by (auto simp: check_financial_stability_def present_gt_def present_le_def or_zero_def
        Let_def split: option.splits)

theorem check_financial_stability_spec_witness:
  "check_financial_stability (Some 0.5) (Some 100) (Some 50) (Some 10) (Some 20) (Some 10)
   \<and> \<not> check_financial_stability (Some 0.5) (Some 100) (Some 50) (Some 10) (Some 30) (Some 10)
   \<and> check_financial_stability (Some 0.5) (Some 100) (Some 50) (Some 10) None (Some 10)"
  using check_financial_stability_spec [where eq = "Some 0.5" and ocf = "Some 100"
      and ni = "Some 50" and f = "Some 10" and td = "Some 20" and eb = "Some 10"]
    check_financial_stability_spec [where eq = "Some 0.5" and ocf = "Some 100"
      and ni = "Some 50" and f = "Some 10" and td = "Some 30" and eb = "Some 10"]
    check_financial_stability_spec [where eq = "Some 0.5" and ocf = "Some 100"
      and ni = "Some 50" and f = "Some 10" and td = None and eb = "Some 10"]
  by (simp add: present_gt_def present_le_def or_zero_def)

subsection \<open>Multiplier and exclusion\<close>



subsection \<open>Expected return\<close>



subsection \<open>No mutation of the argument\<close>

text \<open>
  Claim C10. \<open>compute_full_sharpe_score\<close> does not change its \<open>stock_detail\<close> argument: in
  the store it leaves behind, the dict at the argument's address, and every dict that
  existed before the call, has the contents it had before. The computed \<open>hv30\<close> goes into a
  newly allocated copy; an \<open>"hv30"\<close> entry of the caller's dict stays as it was.
\<close>

theorem stock_detail_not_mutated:
  "a < used st \<Longrightarrow>
     cells (snd (compute_full_sharpe_score st a ths r)) a = cells st a
     \<and> (\<forall>b < used st. cells (snd (compute_full_sharpe_score st a ths r)) b = cells st b)"
  using orchestrator_store [of a st ths r]
  by (auto simp: alloc_def)

theorem stock_detail_not_mutated_witness:
  "(0::nat) < used (mk_store example_detail)
   \<and> dget (cells (snd (compute_full_sharpe_score (mk_store example_detail) 0 Map.empty 0.005)) 0) ''hv30''
       = Some 0.1
   \<and> (\<exists>x. fst (compute_full_sharpe_score (mk_store example_detail) 0 Map.empty 0.005) = Inr (Some x)
          \<and> hv30 x = None)"
  using stock_detail_not_mutated [where a = 0 and st = "mk_store example_detail"
      and ths = Map.empty and r = "0.005"] ex_run
  by (simp add: mk_store_def example_detail_def mk_detail_def dget_def)

subsection \<open>Zero values and the \<open>or\<close> chains\<close>

text \<open>
  Claim C4 says that a field supplied as 0 is read as absent, so that every snapshot with a
  net income of 0 fails the financial-stability condition. A chain \<open>a or b or c\<close> yields its
  first non-zero value and otherwise whatever \<open>c\<close> is: a 0 under the last key,
  \<open>"net_income"\<close>, reaches \<open>check_financial_stability\<close> as 0, and the snapshot below passes.
\<close>

theorem zero_net_income_counterexample:
  "dget zero_net_income_detail ''net_income'' = Some 0
   \<and> dget zero_net_income_detail ''operating_cashflow'' = Some 100
   \<and> financial_stability (snd (count_conditions_passed zero_net_income_detail no_thresholds)) = True"
  by (simp add: count_conditions_passed_def no_thresholds_def zero_net_income_detail_def mk_detail_def dget_def
    py_or_def tget_def check_financial_stability_def Let_def)

text \<open>
  Claim C4, amended. A chain yields its first operand unless that is absent or 0, and then the
  rest of the chain. When net income is absent or 0 under \<open>"net_income_stmt"\<close> and
  \<open>"netIncome"\<close>, the condition is decided on the entry under \<open>"net_income"\<close> as it is; when that
  entry is absent the condition is false, although \<open>check_financial_stability\<close> called with a
  net income of 0 and a positive operating cash flow passes. In the orchestrator an
  \<open>"eps_growth"\<close> of 0 gives way to \<open>"earnings_growth"\<close>, and an \<open>"fcf"\<close> of 0 with no
  \<open>"free_cashflow"\<close> and no supplied \<open>"fcf_yield"\<close> leaves \<open>fcf_yield\<close> absent.
\<close>

theorem zero_coerced_unless_last_key:
  "py_or v w = (if absent_or_zero v then w else v)
   \<and> (absent_or_zero (dget d ''net_income_stmt'') \<and> absent_or_zero (dget d ''netIncome'')
        \<longrightarrow> financial_stability (snd (count_conditions_passed d ths)) =
            check_financial_stability (dget d ''equity_ratio'')
              (py_or (dget d ''operating_cashflow'') (dget d ''operatingCashflow''))
              (dget d ''net_income'')
              (py_or (py_or (dget d ''fcf'') (dget d ''free_cashflow'')) (dget d ''freeCashflow''))
              (py_or (dget d ''total_debt'') (dget d ''totalDebt''))
              (dget d ''ebitda''))
   \<and> (absent_or_zero (dget d ''net_income_stmt'') \<and> absent_or_zero (dget d ''netIncome'')
        \<and> dget d ''net_income'' = None
        \<longrightarrow> \<not> financial_stability (snd (count_conditions_passed d ths)))
   \<and> (0.40 < e \<and> 0 < c \<and> 0 < f
        \<longrightarrow> check_financial_stability (Some e) (Some c) (Some 0) (Some f) td None)
   \<and> (a < used st \<and> fst (compute_full_sharpe_score st a ths r) = Inr (Some x)
        \<and> dget (cells st a) ''eps_growth'' = Some 0
        \<longrightarrow> expected_return x =
              min (calculate_expected_return (dget (cells st a) ''earnings_growth'')
                     (dget (cells st a) ''dividend_yield'') (fcf_yield x)) 1)
   \<and> (a < used st \<and> fst (compute_full_sharpe_score st a ths r) = Inr (Some x)
        \<and> dget (cells st a) ''fcf_yield'' = None
        \<and> dget (cells st a) ''fcf'' = Some 0 \<and> dget (cells st a) ''free_cashflow'' = None
        \<longrightarrow> fcf_yield x = None)"
proof (intro conjI impI)
  show "py_or v w = (if absent_or_zero v then w else v)"
    by (simp add: py_or_absent_or_zero py_or_truthy)
next
  assume "absent_or_zero (dget d ''net_income_stmt'') \<and> absent_or_zero (dget d ''netIncome'')"
  then show "financial_stability (snd (count_conditions_passed d ths)) =
            check_financial_stability (dget d ''equity_ratio'')
              (py_or (dget d ''operating_cashflow'') (dget d ''operatingCashflow''))
              (dget d ''net_income'')
              (py_or (py_or (dget d ''fcf'') (dget d ''free_cashflow'')) (dget d ''freeCashflow''))
              (py_or (dget d ''total_debt'') (dget d ''totalDebt''))
              (dget d ''ebitda'')"
    by (simp add: count_conditions_stability py_or_absent_or_zero)
next
  assume "absent_or_zero (dget d ''net_income_stmt'') \<and> absent_or_zero (dget d ''netIncome'')
        \<and> dget d ''net_income'' = None"
  then show "\<not> financial_stability (snd (count_conditions_passed d ths))"
    by (simp add: count_conditions_stability py_or_absent_or_zero check_financial_stability_def)
next
  assume "0.40 < e \<and> 0 < c \<and> 0 < f"
  then show "check_financial_stability (Some e) (Some c) (Some 0) (Some f) td None"
    by (simp add: check_financial_stability_def)
next
  assume h: "a < used st \<and> fst (compute_full_sharpe_score st a ths r) = Inr (Some x)
        \<and> dget (cells st a) ''eps_growth'' = Some 0"
  then have "py_or (dget (cells st a) ''eps_growth'') (dget (cells st a) ''earnings_growth'')
       = dget (cells st a) ''earnings_growth''"
    by (simp add: py_or_def)
  with h orchestrator_expected_return [of a st ths r x]
  show "expected_return x =
              min (calculate_expected_return (dget (cells st a) ''earnings_growth'')
                     (dget (cells st a) ''dividend_yield'') (fcf_yield x)) 1"
    by simp
next
  assume h: "a < used st \<and> fst (compute_full_sharpe_score st a ths r) = Inr (Some x)
        \<and> dget (cells st a) ''fcf_yield'' = None
        \<and> dget (cells st a) ''fcf'' = Some 0 \<and> dget (cells st a) ''free_cashflow'' = None"
  with orchestrator_fcf_yield [of a st ths r x]
  show "fcf_yield x = None"
    by (simp add: py_or_def)
qed

theorem zero_coerced_unless_last_key_witness:
  "absent_or_zero (dget zero_net_income_stmt_detail ''net_income_stmt'')
   \<and> absent_or_zero (dget zero_net_income_stmt_detail ''netIncome'')
   \<and> dget zero_net_income_stmt_detail ''netIncome'' = Some 0
   \<and> dget zero_net_income_stmt_detail ''net_income'' = None
   \<and> \<not> financial_stability (snd (count_conditions_passed zero_net_income_stmt_detail Map.empty))
   \<and> check_financial_stability (Some 0.5) (Some 100) (Some 0) (Some 10) None None
   \<and> (0::nat) < used (mk_store zero_fcf_detail)
   \<and> (\<exists>x. fst (compute_full_sharpe_score (mk_store zero_fcf_detail) 0 Map.empty 0.005) = Inr (Some x)
         \<and> dget zero_fcf_detail ''fcf'' = Some 0
         \<and> dget zero_fcf_detail ''market_cap'' = Some 1000
         \<and> fcf_yield x = None)"
proof -
  have g: "absent_or_zero (dget zero_net_income_stmt_detail ''net_income_stmt'')"
      "absent_or_zero (dget zero_net_income_stmt_detail ''netIncome'')"
      "dget zero_net_income_stmt_detail ''netIncome'' = Some 0"
      "dget zero_net_income_stmt_detail ''net_income'' = None"
    by (simp_all add: zero_net_income_stmt_detail_def mk_detail_def dget_def absent_or_zero_def)
  have u: "(0::nat) < used (mk_store zero_fcf_detail)"
    and c: "cells (mk_store zero_fcf_detail) 0 = zero_fcf_detail"
    by (simp_all add: mk_store_def)
  have z: "dget zero_fcf_detail ''fcf_yield'' = None" "dget zero_fcf_detail ''fcf'' = Some 0"
      "dget zero_fcf_detail ''free_cashflow'' = None" "dget zero_fcf_detail ''market_cap'' = Some 1000"
    by (simp_all add: zero_fcf_detail_def mk_detail_def dget_def)
  obtain x where x: "fst (compute_full_sharpe_score (mk_store zero_fcf_detail) 0 Map.empty 0.005) = Inr (Some x)"
    using zf_run by blast
  note t1 = zero_coerced_unless_last_key [where d = zero_net_income_stmt_detail and ths = Map.empty
      and e = "0.5" and c = 100 and f = 10 and td = None
      and a = 0 and st = "mk_store zero_fcf_detail" and r = "0.005" and x = x]
  have 1: "\<not> financial_stability (snd (count_conditions_passed zero_net_income_stmt_detail Map.empty))"
    using t1 g by blast
  have "(0.40::real) < 0.5 \<and> (0::real) < 100 \<and> (0::real) < 10" by simp
  with t1 have 2: "check_financial_stability (Some 0.5) (Some 100) (Some 0) (Some 10) None None"
    by blast
  have 3: "fcf_yield x = None"
    using t1 u x z unfolding c by blast
  from g 1 2 u x z 3 show ?thesis by blast
qed

subsection \<open>Historical volatility\<close>

text \<open>
  Claim C6. \<open>calculate_hv\<close> returns \<open>None\<close> when there are fewer than \<open>window + 1\<close> prices
  or one of the most recent \<open>window + 1\<close> prices is not positive. Otherwise it returns the
  sample standard deviation of the log returns of those prices times \<open>sqrt 252\<close>; for a
  window below 2 there are fewer than two log returns, the sample standard deviation does not
  exist and numpy's value is NaN. \<open>calculate_upside_downside_vol\<close> is absent under the same
  conditions, and otherwise gives, for the strictly positive and for the strictly negative
  log returns, the annualised sample standard deviation when there are at least two of them
  and \<open>None\<close> when there are not.
\<close>

theorem historical_volatility_spec:
  "(hv_absent ps w \<longrightarrow> calculate_hv ps w = Inr None)
   \<and> (\<not> hv_absent ps w \<and> 2 \<le> w \<longrightarrow>
        calculate_hv ps w = Inr (Some (annualized_vol (log_returns (most_recent (w + 1) ps)))))
   \<and> (\<not> hv_absent ps w \<and> w < 2 \<longrightarrow> calculate_hv ps w = Inl DegreesOfFreedom)
   \<and> (hv_absent ps w \<longrightarrow> calculate_upside_downside_vol ps w = Inr (None, None))
   \<and> (\<not> hv_absent ps w \<longrightarrow>
        calculate_upside_downside_vol ps w =
          Inr (sub_vol (filter (\<lambda>r. 0 < r) (log_returns (most_recent (w + 1) ps))),
               sub_vol (filter (\<lambda>r. r < 0) (log_returns (most_recent (w + 1) ps)))))"
proof (intro conjI impI)
  assume "hv_absent ps w"
  then show "calculate_hv ps w = Inr None" by (rule calculate_hv_absent)
next
  assume h: "\<not> hv_absent ps w \<and> 2 \<le> w"
  then have "length (log_returns (most_recent (w + 1) ps)) = w"
    by (simp add: length_log_returns length_most_recent hv_absent_def)
  with h show "calculate_hv ps w = Inr (Some (annualized_vol (log_returns (most_recent (w + 1) ps))))"
    by (simp add: calculate_hv_present np_std_sample_std annualized_vol_def)
next
  assume h: "\<not> hv_absent ps w \<and> w < 2"
  then have "length (log_returns (most_recent (w + 1) ps)) = w"
    by (simp add: length_log_returns length_most_recent hv_absent_def)
  with h show "calculate_hv ps w = Inl DegreesOfFreedom"
    by (simp add: calculate_hv_present np_std_undefined)
next
  assume "hv_absent ps w"
  then show "calculate_upside_downside_vol ps w = Inr (None, None)" by (rule calculate_ud_absent)
next
  assume "\<not> hv_absent ps w"
  then show "calculate_upside_downside_vol ps w =
          Inr (sub_vol (filter (\<lambda>r. 0 < r) (log_returns (most_recent (w + 1) ps))),
               sub_vol (filter (\<lambda>r. r < 0) (log_returns (most_recent (w + 1) ps))))"
    by (rule calculate_ud_present)
qed

theorem historical_volatility_spec_witness:
  "calculate_hv [7, 1, exp 1, 1] 2 = Inr (Some (sqrt 2 * sqrt 252))
   \<and> calculate_hv [1, 0, 1] 2 = Inr None
   \<and> calculate_hv [1, 1] 2 = Inr None
   \<and> calculate_hv [1, 2] 1 = Inl DegreesOfFreedom
   \<and> calculate_upside_downside_vol [7, 1, exp 1, 1] 2 = Inr (None, None)
   \<and> calculate_upside_downside_vol [1, exp 1, exp 2, exp 1, 1] 4 = Inr (Some 0, Some 0)"
proof -
  have a1: "\<not> hv_absent [7, 1, exp 1, 1] 2" "(2::nat) \<le> 2"
    by (simp_all add: hv_absent_def most_recent_def)
  have r1: "log_returns (most_recent (2 + 1) [7, 1, exp 1, 1]) = [1, -1]"
    by (simp add: most_recent_def log_returns_def upt_rec ln_div)
  have s1: "annualized_vol [1, -1] = sqrt 2 * sqrt 252"
    by (simp add: annualized_vol_def sample_std_def power2_eq_square)
  have 1: "calculate_hv [7, 1, exp 1, 1] 2 = Inr (Some (sqrt 2 * sqrt 252))"
    using historical_volatility_spec [where ps = "[7, 1, exp 1, 1]" and w = 2] a1
    unfolding r1 s1 by blast
  have a2: "hv_absent [1, 0, 1] 2" "hv_absent [1, 1] 2"
    by (simp_all add: hv_absent_def most_recent_def)
  have 2: "calculate_hv [1, 0, 1] 2 = Inr None"
    using historical_volatility_spec [where ps = "[1, 0, 1]" and w = 2] a2 by blast
  have 3: "calculate_hv [1, 1] 2 = Inr None"
    using historical_volatility_spec [where ps = "[1, 1]" and w = 2] a2 by blast
  have a4: "\<not> hv_absent [1, 2] 1" "(1::nat) < 2"
    by (simp_all add: hv_absent_def most_recent_def)
  have 4: "calculate_hv [1, 2] 1 = Inl DegreesOfFreedom"
    using historical_volatility_spec [where ps = "[1, 2]" and w = 1] a4 by blast
  have v5: "sub_vol (filter (\<lambda>r. 0 < r) [1, -1]) = None" "sub_vol (filter (\<lambda>r. r < 0) [1, -1]) = None"
    by (simp_all add: sub_vol_def)
  have 5: "calculate_upside_downside_vol [7, 1, exp 1, 1] 2 = Inr (None, None)"
    using historical_volatility_spec [where ps = "[7, 1, exp 1, 1]" and w = 2] a1
    unfolding r1 v5 by blast
  have a6: "\<not> hv_absent [1, exp 1, exp 2, exp 1, 1] 4"
    by (simp add: hv_absent_def most_recent_def)
  have r6: "log_returns (most_recent (4 + 1) [1, exp 1, exp 2, exp 1, 1]) = [1, 1, -1, -1]"
    by (simp add: most_recent_def log_returns_def upt_rec ln_div)
  have v6: "sub_vol (filter (\<lambda>r. 0 < r) [1, 1, -1, -1]) = Some 0"
      "sub_vol (filter (\<lambda>r. r < 0) [1, 1, -1, -1]) = Some 0"
    by (simp_all add: sub_vol_def annualized_vol_def sample_std_def)
  have 6: "calculate_upside_downside_vol [1, exp 1, exp 2, exp 1, 1] 4 = Inr (Some 0, Some 0)"
    using historical_volatility_spec [where ps = "[1, exp 1, exp 2, exp 1, 1]" and w = 4] a6
    unfolding r6 v6 by blast
  from 1 2 3 4 5 6 show ?thesis by blast
qed

subsection \<open>RSI\<close>

text \<open>
  Claim C9 says that the RSI is 100 whenever the smoothed average loss is 0. For a series
  that has not moved, the average gain is 0 as well, the ratio is \<open>0 / 0\<close> and the RSI is
  NaN: fifteen closes of 100, at the last position.
\<close>

theorem rsi_flat_counterexample:
  "avg_loss flat_close 14 ! 14 = Fin 0 \<and> rsi_at flat_close 14 14 = Some NaN"
  by code_simp

text \<open>
  Claim C9, amended. Where the smoothed average loss is defined and positive, the RSI is a
  number in \<open>[0, 100]\<close>. Where it is 0, the average gain is defined and not negative; the RSI
  is exactly 100 when the average gain is positive, and NaN when the average gain is 0 too.
\<close>

theorem rsi_range:
  "(0 < period \<and> i < length close \<and> avg_loss close period ! i = Fin l \<and> 0 < l
      \<longrightarrow> (\<exists>r. rsi_at close period i = Some (Fin r) \<and> 0 \<le> r \<and> r \<le> 100))
   \<and> (0 < period \<and> i < length close \<and> avg_loss close period ! i = Fin 0
      \<longrightarrow> (\<exists>g. avg_gain close period ! i = Fin g \<and> 0 \<le> g
             \<and> (0 < g \<longrightarrow> rsi_at close period i = Some (Fin 100))
             \<and> (g = 0 \<longrightarrow> rsi_at close period i = Some NaN)))"
proof (intro conjI impI)
  assume h: "0 < period \<and> i < length close \<and> avg_loss close period ! i = Fin l \<and> 0 < l"
  then obtain g where "avg_gain close period ! i = Fin g" "0 \<le> g"
    using avg_gain_nth [of period i close] by auto
  with h rsi_value [of g l] show "\<exists>r. rsi_at close period i = Some (Fin r) \<and> 0 \<le> r \<and> r \<le> 100"
    by (simp add: rsi_at_eq)
next
  assume h: "0 < period \<and> i < length close \<and> avg_loss close period ! i = Fin 0"
  then obtain g where g: "avg_gain close period ! i = Fin g" "0 \<le> g"
    using avg_gain_nth [of period i close] by auto
  with h show "\<exists>g. avg_gain close period ! i = Fin g \<and> 0 \<le> g
             \<and> (0 < g \<longrightarrow> rsi_at close period i = Some (Fin 100))
             \<and> (g = 0 \<longrightarrow> rsi_at close period i = Some NaN)"
    by (auto simp: rsi_at_eq fl_sub_def)
qed

theorem rsi_range_witness:
  "(0::nat) < 2 \<and> 2 < length falling_close
   \<and> avg_loss falling_close 2 ! 2 = Fin (1 / 4)
   \<and> (\<exists>r. rsi_at falling_close 2 2 = Some (Fin r) \<and> 0 \<le> r \<and> r \<le> 100)
   \<and> 2 < length rising_close
   \<and> avg_loss rising_close 2 ! 2 = Fin 0
   \<and> rsi_at rising_close 2 2 = Some (Fin 100)"
proof -
  have f: "(0::nat) < 2" "2 < length falling_close" "avg_loss falling_close 2 ! 2 = Fin (1 / 4)"
      "(0::real) < 1 / 4"
    by code_simp+
  have r: "2 < length rising_close" "avg_loss rising_close 2 ! 2 = Fin 0"
      "avg_gain rising_close 2 ! 2 = Fin (3 / 4)"
    by code_simp+
  have 1: "\<exists>r. rsi_at falling_close 2 2 = Some (Fin r) \<and> 0 \<le> r \<and> r \<le> 100"
    using rsi_range [where period = 2 and i = 2 and close = falling_close and l = "1 / 4"] f
    by blast
  have "\<exists>g. avg_gain rising_close 2 ! 2 = Fin g \<and> 0 \<le> g
             \<and> (0 < g \<longrightarrow> rsi_at rising_close 2 2 = Some (Fin 100))
             \<and> (g = 0 \<longrightarrow> rsi_at rising_close 2 2 = Some NaN)"
    using rsi_range [where period = 2 and i = 2 and close = rising_close] f(1) r(1,2)
    by blast
  then have 2: "rsi_at rising_close 2 2 = Some (Fin 100)"
    using r(3) by auto
  from f r 1 2 show ?thesis by blast
qed

subsection \<open>Short series\<close>

text \<open>
  Claim C5. For a series of fewer than 200 bars, whatever the configuration is,
  \<open>detect_pullback_in_uptrend\<close> returns (it does not raise) the default report: no uptrend,
  no pullback, a pullback of 0.0, no bounce signal, a bounce score of 0.0, the five
  bounce details false with \<open>lookback_day = 0\<close>, NaN for \<open>rsi\<close>, \<open>volume_ratio\<close>, \<open>sma50\<close>,
  \<open>sma200\<close>, \<open>current_price\<close> and \<open>recent_high\<close>, and \<open>all_conditions\<close> false.
\<close>

theorem short_series_default_report:
  "length hist < 200 \<Longrightarrow>
     detect_pullback_in_uptrend cfg hist =
       Inr \<lparr>uptrend = False, is_pullback = False, pullback_pct = 0,
            bounce_signal = False, bounce_score = 0,
            bounce_details =
              \<lparr>rsi_reversal = False, rsi_depth_bonus = False, bb_proximity = False,
               volume_surge = False, price_reversal = False, lookback_day = 0\<rparr>,
            rsi = NaN, volume_ratio = NaN, sma50 = NaN, sma200 = NaN,
            current_price = NaN, recent_high = NaN, all_conditions = False\<rparr>"
  by (simp add: detect_pullback_in_uptrend_def default_report_def no_bounce_def Let_def)

theorem short_series_default_report_witness:
  "length one_bar < 200
   \<and> detect_pullback_in_uptrend Map.empty one_bar =
       Inr \<lparr>uptrend = False, is_pullback = False, pullback_pct = 0,
            bounce_signal = False, bounce_score = 0,
            bounce_details =
              \<lparr>rsi_reversal = False, rsi_depth_bonus = False, bb_proximity = False,
               volume_surge = False, price_reversal = False, lookback_day = 0\<rparr>,
            rsi = NaN, volume_ratio = NaN, sma50 = NaN, sma200 = NaN,
            current_price = NaN, recent_high = NaN, all_conditions = False\<rparr>"
proof -
  have l: "length one_bar < 200" by (simp add: one_bar_def)
  from short_series_default_report [OF l, of Map.empty] l show ?thesis by blast
qed


end
